theory Spec2Isabelle
  imports Complex_Main
begin

section \<open>Data model\<close>

text \<open>
  The uploader drives one file through three phases: dataset preparation
  (\<^verbatim>\<open>_prepare_dataset\<close>), transport (\<^verbatim>\<open>_perform_upload\<close>) and tagging
  (\<^verbatim>\<open>_update_file_metadata\<close>), under \<^verbatim>\<open>upload_file\<close>. The embedding passes the
  uploader object explicitly; an exception is the \<open>Some\<close> (or \<open>Inl\<close>) component of a
  result, returned together with the state the object is left in.

  The file is taken to exist, to be readable and to lie under the root path, so that
  \<^verbatim>\<open>stat\<close>, \<^verbatim>\<open>open\<close> and \<^verbatim>\<open>relative_to\<close> return; the log prefix, the name and the size of
  the file are then fixed values. An API call returns its pair and does not raise. The
  fields \<^verbatim>\<open>_started\<close>, \<^verbatim>\<open>_progress\<close>, \<^verbatim>\<open>_display_progress\<close> and \<^verbatim>\<open>_is_test_context\<close> are set
  and never read by the sequence, and are left out.
\<close>

text \<open>
  Modelled from the spec: the module \<^verbatim>\<open>constants\<close> (the enumerations \<^verbatim>\<open>Status\<close> and
  \<^verbatim>\<open>Substatus\<close>) is not among the sources; the members are those the spec lists.
\<close>

datatype Status =
    Status_NEW | Status_PREPARING | Status_UPLOADING | Status_FINISHING
  | Status_OK | Status_SKIPPED | Status_ERROR

datatype Substatus =
    Substatus_PENDING | Substatus_CHECKING | Substatus_UPLOADING | Substatus_TAGGING
  | Substatus_ALREADY_SYNCED | Substatus_DONE | Substatus_ERROR

text \<open>The list \<^verbatim>\<open>[status, substatus, None]\<close> held in \<^verbatim>\<open>self._status\<close>.\<close>

type_synonym upload_status = "Status \<times> Substatus \<times> string option"

text \<open>Python values that travel in request payloads and response records.\<close>

datatype pyval = PyNone | PyStr string | PyBool bool | PyList "string list"

type_synonym pydict = "(string \<times> pyval) list"

definition of_opt :: "string option \<Rightarrow> pyval" where
  "of_opt v = (case v of None \<Rightarrow> PyNone | Some x \<Rightarrow> PyStr x)"

text \<open>\<^verbatim>\<open>d.get(k)\<close>: the value stored under \<open>k\<close>, or \<^verbatim>\<open>None\<close>.\<close>

definition dict_get :: "pydict \<Rightarrow> string \<Rightarrow> pyval" where
  "dict_get d k = (case map_of d k of None \<Rightarrow> PyNone | Some v \<Rightarrow> v)"

text \<open>\<^verbatim>\<open>str(v)\<close>, as an f-string interpolates such an attribute.\<close>

definition py_str :: "string option \<Rightarrow> string" where
  "py_str v = (case v of None \<Rightarrow> ''None'' | Some x \<Rightarrow> x)"

text \<open>
  Truth value of an attribute that is \<^verbatim>\<open>None\<close> or a string, as tested by
  \<^verbatim>\<open>if self._context.dataset_uuid:\<close>: \<^verbatim>\<open>None\<close> and the empty string are false.
\<close>

definition truthy :: "string option \<Rightarrow> bool" where
  "truthy v = (case v of None \<Rightarrow> False | Some x \<Rightarrow> x \<noteq> [])"

text \<open>
  The error half of the pair an API call returns: \<^verbatim>\<open>error.status\<close> is the server's
  status code and \<^verbatim>\<open>str(error)\<close> its message.
\<close>

record ApiError =
  err_status :: int
  err_message :: string

type_synonym response = "pydict option \<times> ApiError option"

text \<open>
  The exceptions of module \<^verbatim>\<open>errors\<close>, with the message each is raised with.
  \<open>OtherError\<close> stands for any exception of another class (an \<^verbatim>\<open>AttributeError\<close>, or
  whatever the context's tag validation raises). The module is not among the sources;
  its classes are taken to be unrelated by inheritance, as the comment at lines 172 and
  173 says of the two dataset errors, so an \<^verbatim>\<open>except\<close> clause catches its own class only.
\<close>

datatype upload_error =
    UploadRemoteDatasetCheckError string
  | UploadRemoteFileError string
  | UploadRemoteFileMetadataError string
  | UploadRemoteFileInvalidatedContextError
  | UploadRemoteDatasetPreparationError string
  | OtherError string

text \<open>
  The shared \<^verbatim>\<open>UploadContext\<close>. The class is not among the sources; these are the
  attributes the uploader reads. \<open>is_validated\<close>, \<open>should_update_dataset_with_telescope\<close>
  and \<open>is_raw_data\<close> are flags; the identifiers are \<^verbatim>\<open>None\<close> or strings.
\<close>

record UploadContext =
  is_validated :: bool
  dataset_uuid :: "string option"
  dataset_name :: "string option"
  should_update_dataset_with_telescope :: bool
  telescope_uuid :: "string option"
  custom_tags :: "string list option"
  is_raw_data :: bool
  username :: string

text \<open>
  The multipart body built by \<^verbatim>\<open>__get_upload_data\<close>: the dataset field, the name of the
  file, and the handle the file was opened on.
\<close>

record UploadData =
  ud_dataset :: "string option"
  ud_file_name :: string
  ud_handle :: nat

datatype api_call =
    DatasetsUpdate "string option" pydict
  | DatasetsRead "string option"
  | DatasetsCreate pydict
  | DatafilesCreate UploadData
  | DatafilesUpdate pyval pydict

text \<open>What the uploader does to the outside world, in order.\<close>

datatype effect = Log string | Sleep nat | Call api_call

datatype handle_state = Opened | Closed

text \<open>
  The collaborators and the constants of the run. \<open>server n c\<close> is the pair the API
  client returns for request \<open>c\<close> when \<open>n\<close> requests were issued before it.
  \<open>update_dataset\<close> and \<open>validate_custom_tags\<close> are the methods of the context that the
  uploader calls; their code is not among the sources, so they are parameters.
\<close>

record Env =
  server :: "nat \<Rightarrow> api_call \<Rightarrow> response"
  update_dataset :: "UploadContext \<Rightarrow> pydict option \<Rightarrow> UploadContext"
  validate_custom_tags :: "UploadContext \<Rightarrow> string list \<Rightarrow> upload_error option"
  hostname :: string
  version :: string
  file_size :: nat
  elapsed :: string

text \<open>
  The uploader object. \<open>ctx\<close> is the shared context (\<^verbatim>\<open>self._context\<close>), \<open>effects\<close>
  the trace of log lines, pauses and requests, \<open>handles\<close> the table of the file handles
  opened so far.
\<close>

record DataFileUploader =
  ctx :: UploadContext
  root_path :: string
  file_path :: string
  file_name :: string
  log_prefix :: string
  status :: upload_status
  datafile :: "pydict option"
  effects :: "effect list"
  handles :: "handle_state list"

text \<open>\<^verbatim>\<open>__init__\<close>: line 37 sets the initial status.\<close>

definition init_uploader ::
  "UploadContext \<Rightarrow> string \<Rightarrow> string \<Rightarrow> string \<Rightarrow> string \<Rightarrow> DataFileUploader" where
  "init_uploader c rp fp name prefix =
     \<lparr>ctx = c, root_path = rp, file_path = fp, file_name = name, log_prefix = prefix,
      status = (Status_NEW, Substatus_PENDING, None), datafile = None,
      effects = [], handles = []\<rparr>"

section \<open>Helpers\<close>

text \<open>\<^verbatim>\<open>self._logger.info(f'{self.log_prefix}...')\<close>\<close>

definition info :: "DataFileUploader \<Rightarrow> string \<Rightarrow> DataFileUploader" where
  "info s msg = s\<lparr>effects := effects s @ [Log (log_prefix s @ msg)]\<rparr>"

text \<open>\<^verbatim>\<open>time.sleep(n)\<close>\<close>

definition sleep :: "nat \<Rightarrow> DataFileUploader \<Rightarrow> DataFileUploader" where
  "sleep n s = s\<lparr>effects := effects s @ [Sleep n]\<rparr>"

fun calls :: "effect list \<Rightarrow> api_call list" where
  "calls [] = []"
| "calls (Call c # es) = c # calls es"
| "calls (e # es) = calls es"

definition api_response :: "Env \<Rightarrow> DataFileUploader \<Rightarrow> api_call \<Rightarrow> response" where
  "api_response env s c = server env (length (calls (effects s))) c"

definition api_called :: "DataFileUploader \<Rightarrow> api_call \<Rightarrow> DataFileUploader" where
  "api_called s c = s\<lparr>effects := effects s @ [Call c]\<rparr>"

text \<open>\<^verbatim>\<open>sub in s\<close> on strings.\<close>

fun starts_with :: "string \<Rightarrow> string \<Rightarrow> bool" where
  "starts_with [] s = True"
| "starts_with (c # cs) [] = False"
| "starts_with (c # cs) (d # ds) = (c = d \<and> starts_with cs ds)"

fun contains :: "string \<Rightarrow> string \<Rightarrow> bool" where
  "contains sub [] = (sub = [])"
| "contains sub (c # cs) = (starts_with sub (c # cs) \<or> contains sub cs)"

text \<open>\<^verbatim>\<open>str(n)\<close> on integers.\<close>

function str_nat :: "nat \<Rightarrow> string" where
  "str_nat n =
     (if n < 10 then [''0123456789'' ! n]
      else str_nat (n div 10) @ [''0123456789'' ! (n mod 10)])"
  by pat_completeness auto
termination
  by (relation "measure id") auto

declare str_nat.simps [simp del]

definition str_int :: "int \<Rightarrow> string" where
  "str_int i = (if i < 0 then CHR ''-'' # str_nat (nat (- i)) else str_nat (nat i))"

section \<open>Dataset preparation\<close>

text \<open>Lines 69 to 71: the payload of the create request.\<close>

definition create_payload :: "UploadContext \<Rightarrow> pydict" where
  "create_payload c =
     (let payload = [(''name'', of_opt (dataset_name c))]
      in if should_update_dataset_with_telescope c
         then payload @ [(''telescope'', of_opt (telescope_uuid c))]
         else payload)"

text \<open>Lines 55 to 59: the request issued when the context has a dataset UUID.\<close>

definition existing_dataset_call :: "UploadContext \<Rightarrow> api_call" where
  "existing_dataset_call c =
     (if should_update_dataset_with_telescope c
      then DatasetsUpdate (dataset_uuid c) [(''telescope'', of_opt (telescope_uuid c))]
      else DatasetsRead (dataset_uuid c))"

text \<open>\<^verbatim>\<open>_prepare_dataset\<close>, lines 49 to 83.\<close>

definition prepare_dataset :: "Env \<Rightarrow> DataFileUploader \<Rightarrow> upload_error option \<times> DataFileUploader" where
  "prepare_dataset env s0 =
     (let s1 = info s0 '' Preparing Dataset...'';
          s2 = s1\<lparr>status := (Status_PREPARING, Substatus_CHECKING, None)\<rparr>
      in if truthy (dataset_uuid (ctx s2)) then
           (let c = existing_dataset_call (ctx s2);
                r = api_response env s2 c;
                s3 = api_called s2 c
            in case snd r of
                 Some e \<Rightarrow>
                   (Some (UploadRemoteDatasetPreparationError (err_message e)),
                    info s3 '' Dataset preparation failed..'')
               | None \<Rightarrow> (None, info s3 '' Dataset preparation done.''))
         else if truthy (dataset_name (ctx s2)) then
           (let c = DatasetsCreate (create_payload (ctx s2));
                r = api_response env s2 c;
                s3 = api_called s2 c
            in case snd r of
                 Some e \<Rightarrow>
                   (Some (UploadRemoteDatasetPreparationError (err_message e)),
                    info s3 '' Dataset preparation failed..'')
               | None \<Rightarrow>
                   (None,
                    info (s3\<lparr>ctx := update_dataset env (ctx s3) (fst r)\<rparr>)
                      '' Dataset preparation done.''))
         else (Some (UploadRemoteDatasetCheckError ''No dataset specified.''), s2))"

section \<open>Transport\<close>

text \<open>
  \<^verbatim>\<open>__get_upload_data\<close>, lines 85 to 101: opens the file and wraps the handle in the
  multipart body. The source calls \<^verbatim>\<open>open\<close> and has no \<^verbatim>\<open>close\<close> and no \<^verbatim>\<open>with\<close> block,
  so the table only ever grows by handles in state \<open>Opened\<close>.
\<close>

definition get_upload_data :: "DataFileUploader \<Rightarrow> UploadData \<times> DataFileUploader" where
  "get_upload_data s =
     (\<lparr>ud_dataset = dataset_uuid (ctx s), ud_file_name = file_name s,
       ud_handle = length (handles s)\<rparr>,
      s\<lparr>handles := handles s @ [Opened]\<rparr>)"

datatype py_error = ZeroDivisionError

text \<open>
  Line 94 of the progress callback \<^verbatim>\<open>percent_printer\<close>, which the monitor runs on each
  read of the body: \<^verbatim>\<open>min(float(bytes_read) / float(file_size), 1.0)\<close>. Python's
  float division raises \<^verbatim>\<open>ZeroDivisionError\<close> on a zero divisor; the quotient itself is
  taken over the rationals.
\<close>

definition percent_printer_fraction :: "nat \<Rightarrow> nat \<Rightarrow> py_error + rat" where
  "percent_printer_fraction size_of_file bytes_read =
     (if size_of_file = 0 then Inl ZeroDivisionError
      else Inr (min (of_nat bytes_read / of_nat size_of_file) 1))"

text \<open>\<^verbatim>\<open>_perform_upload\<close>, lines 103 to 122.\<close>

definition perform_upload :: "Env \<Rightarrow> DataFileUploader \<Rightarrow> upload_error option \<times> DataFileUploader" where
  "perform_upload env s0 =
     (let s1 = info s0 '' Start uploading...'';
          s2 = s1\<lparr>status := (Status_UPLOADING, Substatus_UPLOADING, None)\<rparr>;
          s3 = info s2 ('' Starting upload to Arcsecond ('' @ str_nat (file_size env) @ '' bytes)'');
          d = fst (get_upload_data s3);
          s4 = snd (get_upload_data s3);
          r = api_response env s4 (DatafilesCreate d);
          s5 = (api_called s4 (DatafilesCreate d))\<lparr>datafile := fst r\<rparr>
      in case snd r of
           None \<Rightarrow> (None, info s5 ('' Upload duration is '' @ elapsed env @ '' seconds.''))
         | Some e \<Rightarrow>
             if contains ''already exists in dataset'' (err_message e)
             then (None, s5\<lparr>status := (Status_SKIPPED, Substatus_ALREADY_SYNCED, None)\<rparr>)
             else
               (Some (UploadRemoteFileError (str_int (err_status e) @ '' - '' @ err_message e)),
                info (s5\<lparr>status := (Status_ERROR, Substatus_ERROR, None)\<rparr>)
                  ('' Upload of file '' @ file_path s5 @ '' failed.'')))"

section \<open>Metadata\<close>

text \<open>
  Lines 128 to 143: the tag list, from the context, the root path and the tags the
  call was given.
\<close>

definition build_tags :: "Env \<Rightarrow> UploadContext \<Rightarrow> string \<Rightarrow> string list option \<Rightarrow> string list" where
  "build_tags env c rp tags_arg =
     (let tag_root = ''arcsecond|root|'' @ rp;
          tag_origin = ''arcsecond|origin|'' @ hostname env;
          tag_uploader = ''arcsecond|uploader|'' @ username c;
          tag_version = ''arcsecond|version|'' @ version env;
          tags = [tag_root, tag_origin, tag_uploader, tag_version];
          tags = (if truthy (telescope_uuid c)
                  then tags @ [''arcsecond|telescope|'' @ py_str (telescope_uuid c)]
                  else tags)
      in case tags_arg of
           Some ts \<Rightarrow> tags @ ts
         | None \<Rightarrow> (case custom_tags c of Some ts \<Rightarrow> tags @ ts | None \<Rightarrow> tags))"

text \<open>Lines 145 to 152: the payload of the update request.\<close>

definition build_payload ::
  "Env \<Rightarrow> UploadContext \<Rightarrow> string \<Rightarrow> bool option \<Rightarrow> string list option \<Rightarrow> pydict" where
  "build_payload env c rp is_raw tags_arg =
     (let is_raw_flag = (case is_raw of Some b \<Rightarrow> b | None \<Rightarrow> is_raw_data c)
      in [(''tags'', PyList (build_tags env c rp tags_arg)),
          (''is_raw'', PyBool is_raw_flag),
          (''fsname'', PyStr (hostname env)),
          (''fspath'', PyStr rp)])"

text \<open>
  \<^verbatim>\<open>_update_file_metadata\<close>, lines 124 to 162. The validation of line 140 runs before
  the request, and so does \<^verbatim>\<open>self._datafile.get('pk')\<close>, which raises an
  \<^verbatim>\<open>AttributeError\<close> when the upload returned no record.
\<close>

definition update_file_metadata ::
  "Env \<Rightarrow> bool option \<Rightarrow> string list option \<Rightarrow> DataFileUploader
     \<Rightarrow> upload_error option \<times> DataFileUploader" where
  "update_file_metadata env is_raw tags_arg s0 =
     (let s1 = info s0 '' Updating file metadata....'';
          s2 = s1\<lparr>status := (Status_FINISHING, Substatus_TAGGING, None)\<rparr>;
          invalid = (case tags_arg of
                       None \<Rightarrow> None
                     | Some ts \<Rightarrow> validate_custom_tags env (ctx s2) ts)
      in case invalid of
           Some err \<Rightarrow> (Some err, s2)
         | None \<Rightarrow>
             (case datafile s2 of
                None \<Rightarrow> (Some (OtherError ''AttributeError''), s2)
              | Some d \<Rightarrow>
                  (let c = DatafilesUpdate (dict_get d ''pk'')
                             (build_payload env (ctx s2) (root_path s2) is_raw tags_arg);
                       r = api_response env s2 c;
                       s3 = api_called s2 c
                   in case snd r of
                        Some e \<Rightarrow>
                          (Some (UploadRemoteFileMetadataError (err_message e)),
                           info (s3\<lparr>status := (Status_ERROR, Substatus_ERROR, None)\<rparr>)
                             '' Update of metadata failed.'')
                      | None \<Rightarrow>
                          (None, s3\<lparr>status := (Status_OK, Substatus_DONE, None)\<rparr>))))"

section \<open>The upload sequence\<close>

text \<open>Lines 169 to 175: the dataset phase with its single retry.\<close>

definition try_prepare_dataset ::
  "Env \<Rightarrow> DataFileUploader \<Rightarrow> upload_error option \<times> DataFileUploader" where
  "try_prepare_dataset env s =
     (case prepare_dataset env s of
        (None, s1) \<Rightarrow> (None, s1)
      | (Some e, s1) \<Rightarrow>
          (case e of
             UploadRemoteDatasetPreparationError m \<Rightarrow> prepare_dataset env (sleep 1 s1)
           | _ \<Rightarrow> (Some e, s1)))"

text \<open>Lines 177 to 182: the transport phase with its single retry.\<close>

definition try_perform_upload ::
  "Env \<Rightarrow> DataFileUploader \<Rightarrow> upload_error option \<times> DataFileUploader" where
  "try_perform_upload env s =
     (case perform_upload env s of
        (None, s1) \<Rightarrow> (None, s1)
      | (Some e, s1) \<Rightarrow>
          (case e of
             UploadRemoteFileError m \<Rightarrow> perform_upload env (sleep 1 s1)
           | _ \<Rightarrow> (Some e, s1)))"

text \<open>Lines 189 to 194: the tagging phase with its single retry.\<close>

definition try_update_file_metadata ::
  "Env \<Rightarrow> bool option \<Rightarrow> string list option \<Rightarrow> DataFileUploader
     \<Rightarrow> upload_error option \<times> DataFileUploader" where
  "try_update_file_metadata env is_raw tags_arg s =
     (case update_file_metadata env is_raw tags_arg s of
        (None, s1) \<Rightarrow> (None, s1)
      | (Some e, s1) \<Rightarrow>
          (case e of
             UploadRemoteFileMetadataError m \<Rightarrow> update_file_metadata env is_raw tags_arg (sleep 1 s1)
           | _ \<Rightarrow> (Some e, s1)))"

text \<open>Lines 184 to 197: what follows the transport phase.\<close>

definition finish_upload ::
  "Env \<Rightarrow> bool option \<Rightarrow> string list option \<Rightarrow> DataFileUploader
     \<Rightarrow> (upload_error + upload_status) \<times> DataFileUploader" where
  "finish_upload env is_raw tags_arg s =
     (if fst (status s) = Status_SKIPPED then
        (let s1 = info (info s '' Upload skipped.'') '' Closing upload sequence.''
         in (Inr (status s1), s1))
      else
        (case try_update_file_metadata env is_raw tags_arg (info s '' Upload done.'') of
           (Some e, s1) \<Rightarrow> (Inl e, s1)
         | (None, s1) \<Rightarrow>
             (let s2 = info s1 '' Closing upload sequence.'' in (Inr (status s2), s2))))"

text \<open>\<^verbatim>\<open>upload_file\<close>, lines 164 to 197.\<close>

definition upload_file ::
  "Env \<Rightarrow> bool option \<Rightarrow> string list option \<Rightarrow> DataFileUploader
     \<Rightarrow> (upload_error + upload_status) \<times> DataFileUploader" where
  "upload_file env is_raw tags_arg s0 =
     (let s = info s0 '' Opening upload sequence.''
      in if \<not> is_validated (ctx s) then (Inl UploadRemoteFileInvalidatedContextError, s)
         else
           (case try_prepare_dataset env s of
              (Some e, s1) \<Rightarrow> (Inl e, s1)
            | (None, s1) \<Rightarrow>
                (case try_perform_upload env s1 of
                   (Some e, s2) \<Rightarrow> (Inl e, s2)
                 | (None, s2) \<Rightarrow> finish_upload env is_raw tags_arg s2)))"

section \<open>Reading the trace\<close>

text \<open>
  The pair that the request of \<^verbatim>\<open>_perform_upload\<close> receives when the method is entered
  in state \<open>s\<close>: the method logs twice, opens the file and then issues the request.
\<close>

definition upload_response :: "Env \<Rightarrow> DataFileUploader \<Rightarrow> response" where
  "upload_response env s =
     server env (length (calls (effects s))) (DatafilesCreate (fst (get_upload_data s)))"

text \<open>
  The pair that the request of \<^verbatim>\<open>_update_file_metadata\<close> receives when the method is
  entered in state \<open>s\<close> with a stored record \<open>d\<close>.
\<close>

definition metadata_response ::
  "Env \<Rightarrow> bool option \<Rightarrow> string list option \<Rightarrow> DataFileUploader \<Rightarrow> pydict \<Rightarrow> response" where
  "metadata_response env is_raw tags_arg s d =
     server env (length (calls (effects s)))
       (DatafilesUpdate (dict_get d ''pk'') (build_payload env (ctx s) (root_path s) is_raw tags_arg))"

text \<open>Whether the validation of line 140 lets the call's tags through.\<close>

definition tags_accepted :: "Env \<Rightarrow> UploadContext \<Rightarrow> string list option \<Rightarrow> bool" where
  "tags_accepted env c tags_arg =
     (case tags_arg of None \<Rightarrow> True | Some ts \<Rightarrow> validate_custom_tags env c ts = None)"

section \<open>A concrete run\<close>

text \<open>
  A context that names a dataset without a UUID, a server that answers every request
  with the same record except where \<open>failures\<close> gives an error (\<open>failing ns e\<close> fails
  the requests numbered in \<open>ns\<close>, \<open>accepting\<close> fails none), and a write-back that stores
  the UUID of the returned record.
\<close>

definition example_ctx :: UploadContext where
  "example_ctx =
     \<lparr>is_validated = True, dataset_uuid = None, dataset_name = Some ''M31-survey'',
      should_update_dataset_with_telescope = False, telescope_uuid = None,
      custom_tags = None, is_raw_data = True, username = ''alice''\<rparr>"

definition example_record :: pydict where
  "example_record = [(''uuid'', PyStr ''d1''), (''pk'', PyStr ''7'')]"

definition example_update_dataset :: "UploadContext \<Rightarrow> pydict option \<Rightarrow> UploadContext" where
  "example_update_dataset c d =
     (case d of
        None \<Rightarrow> c
      | Some r \<Rightarrow> (case dict_get r ''uuid'' of PyStr u \<Rightarrow> c\<lparr>dataset_uuid := Some u\<rparr> | _ \<Rightarrow> c))"

definition example_env :: "(nat \<Rightarrow> ApiError option) \<Rightarrow> Env" where
  "example_env failures =
     \<lparr>server = (\<lambda>n c. case failures n of
                          None \<Rightarrow> (Some example_record, None)
                        | Some e \<Rightarrow> (None, Some e)),
      update_dataset = example_update_dataset,
      validate_custom_tags = (\<lambda>c ts. None),
      hostname = ''host'', version = ''1.0'', file_size = 1024, elapsed = ''0.5''\<rparr>"

definition example_uploader :: "UploadContext \<Rightarrow> DataFileUploader" where
  "example_uploader c = init_uploader c ''/data'' ''/data/a.fits'' ''a.fits'' ''[a.fits]''"

definition server_error :: ApiError where
  "server_error = \<lparr>err_status = 500, err_message = ''Server Error''\<rparr>"

definition duplicate_error :: ApiError where
  "duplicate_error = \<lparr>err_status = 400, err_message = ''File a.fits already exists in dataset d1.''\<rparr>"

definition failing :: "nat list \<Rightarrow> ApiError \<Rightarrow> nat \<Rightarrow> ApiError option" where
  "failing ns e n = (if n \<in> set ns then Some e else None)"

definition accepting :: "nat \<Rightarrow> ApiError option" where
  "accepting n = None"

section \<open>Properties of the phases\<close>

lemmas run_defs =
  upload_file_def try_prepare_dataset_def try_perform_upload_def try_update_file_metadata_def
  finish_upload_def prepare_dataset_def perform_upload_def update_file_metadata_def
  get_upload_data_def build_payload_def build_tags_def create_payload_def
  existing_dataset_call_def info_def sleep_def api_called_def api_response_def Let_def
  truthy_def py_str_def of_opt_def dict_get_def str_int_def upload_response_def
  metadata_response_def tags_accepted_def

lemmas example_defs =
  example_ctx_def example_record_def example_update_dataset_def example_env_def
  example_uploader_def server_error_def duplicate_error_def init_uploader_def
  failing_def accepting_def

lemma calls_append [simp]: "calls (xs @ ys) = calls xs @ calls ys"
  by (induction xs rule: calls.induct) auto

lemma starts_with_iff: "starts_with sub s \<longleftrightarrow> (\<exists>q. s = sub @ q)"
  by (induction sub s rule: starts_with.induct) auto

lemma contains_iff: "contains sub s \<longleftrightarrow> (\<exists>p q. s = p @ sub @ q)"
proof (induction s)
  case Nil
  then show ?case by simp
next
  case (Cons c cs)
  have "(\<exists>p q. c # cs = p @ sub @ q) \<longleftrightarrow>
        (\<exists>q. c # cs = sub @ q) \<or> (\<exists>p q. cs = p @ sub @ q)"
    by (auto simp: Cons_eq_append_conv)
  with Cons show ?case by (simp add: starts_with_iff)
qed

lemmas step_defs = info_def sleep_def api_called_def api_response_def Let_def

lemma perform_upload_ctx: "ctx (snd (perform_upload env s)) = ctx s"
  by (simp add: perform_upload_def get_upload_data_def step_defs split: option.splits)

lemma update_file_metadata_ctx: "ctx (snd (update_file_metadata env i t s)) = ctx s"
  by (simp add: update_file_metadata_def step_defs split: option.splits)

lemma perform_upload_returns:
  "perform_upload env s = (None, s') \<Longrightarrow>
     status s' = (Status_UPLOADING, Substatus_UPLOADING, None) \<or>
     status s' = (Status_SKIPPED, Substatus_ALREADY_SYNCED, None)"
  by (auto simp add: perform_upload_def get_upload_data_def step_defs split: option.splits if_splits)

lemma perform_upload_raises:
  "perform_upload env s = (Some e, s') \<Longrightarrow> \<exists>m. e = UploadRemoteFileError m"
  by (auto simp add: perform_upload_def get_upload_data_def step_defs split: option.splits if_splits)

lemma update_file_metadata_returns:
  "update_file_metadata env i t s = (None, s') \<Longrightarrow> status s' = (Status_OK, Substatus_DONE, None)"
  by (auto simp add: update_file_metadata_def step_defs split: option.splits if_splits)

lemma prepare_dataset_retry_kind:
  "prepare_dataset env s = (Some (UploadRemoteDatasetPreparationError m), s1) \<Longrightarrow>
   prepare_dataset env (sleep n s1) = (Some e, s2) \<Longrightarrow>
   \<exists>m'. e = UploadRemoteDatasetPreparationError m'"
  by (auto simp add: prepare_dataset_def step_defs split: option.splits if_splits)

lemma update_file_metadata_retry_kind:
  "update_file_metadata env i t s = (Some (UploadRemoteFileMetadataError m), s1) \<Longrightarrow>
   update_file_metadata env i t (sleep n s1) = (Some e, s2) \<Longrightarrow>
   \<exists>m'. e = UploadRemoteFileMetadataError m'"
  by (auto simp add: update_file_metadata_def step_defs split: option.splits if_splits)

lemma update_file_metadata_request:
  assumes "tags_accepted env (ctx s) t" and "datafile s = Some d"
  shows "update_file_metadata env i t s =
     (case snd (metadata_response env i t s d) of
        Some e \<Rightarrow>
          (Some (UploadRemoteFileMetadataError (err_message e)),
           s\<lparr>status := (Status_ERROR, Substatus_ERROR, None),
             effects := effects s @
               [Log (log_prefix s @ '' Updating file metadata....''),
                Call (DatafilesUpdate (dict_get d ''pk'')
                        (build_payload env (ctx s) (root_path s) i t)),
                Log (log_prefix s @ '' Update of metadata failed.'')]\<rparr>)
      | None \<Rightarrow>
          (None,
           s\<lparr>status := (Status_OK, Substatus_DONE, None),
             effects := effects s @
               [Log (log_prefix s @ '' Updating file metadata....''),
                Call (DatafilesUpdate (dict_get d ''pk'')
                        (build_payload env (ctx s) (root_path s) i t))]\<rparr>))"
proof -
  have v: "(case t of None \<Rightarrow> None | Some ts \<Rightarrow> validate_custom_tags env (ctx s) ts) = None"
    using assms(1) by (simp add: tags_accepted_def split: option.splits)
  show ?thesis
    using assms(2) v
    by (simp add: update_file_metadata_def metadata_response_def step_defs split: option.splits)
qed

lemma sleep_ctx [simp]: "ctx (sleep n s) = ctx s"
  by (simp add: sleep_def)

lemma info_ctx [simp]: "ctx (info s m) = ctx s"
  by (simp add: info_def)

lemma try_perform_upload_ctx: "ctx (snd (try_perform_upload env s)) = ctx s"
proof (cases "perform_upload env s")
  case (Pair r s1)
  then have c1: "ctx s1 = ctx s"
    using perform_upload_ctx [of env s] by simp
  have c2: "ctx (snd (perform_upload env (sleep 1 s1))) = ctx s"
    using c1 by (simp add: perform_upload_ctx)
  show ?thesis
    using Pair c1 c2
    by (simp add: try_perform_upload_def split: option.splits upload_error.splits)
qed

lemma try_update_file_metadata_ctx: "ctx (snd (try_update_file_metadata env i t s)) = ctx s"
proof (cases "update_file_metadata env i t s")
  case (Pair r s1)
  then have c1: "ctx s1 = ctx s"
    using update_file_metadata_ctx [of env i t s] by simp
  have c2: "ctx (snd (update_file_metadata env i t (sleep 1 s1))) = ctx s"
    using c1 by (simp add: update_file_metadata_ctx)
  show ?thesis
    using Pair c1 c2
    by (simp add: try_update_file_metadata_def split: option.splits upload_error.splits)
qed

lemma finish_upload_ctx: "ctx (snd (finish_upload env i t s)) = ctx s"
proof (cases "try_update_file_metadata env i t (info s '' Upload done.'')")
  case (Pair r s1)
  then have "ctx s1 = ctx s"
    using try_update_file_metadata_ctx [of env i t "info s '' Upload done.''"] by simp
  with Pair show ?thesis
    by (simp add: finish_upload_def Let_def split: option.splits)
qed

lemma after_dataset_ctx:
  "ctx (snd (case try_perform_upload env s1 of
               (None, s2) \<Rightarrow> finish_upload env i t s2
             | (Some e, s2) \<Rightarrow> (Inl e, s2))) = ctx s1"
proof (cases "try_perform_upload env s1")
  case (Pair r s2)
  then have "ctx s2 = ctx s1"
    using try_perform_upload_ctx [of env s1] by simp
  with Pair show ?thesis
    by (simp add: finish_upload_ctx split: option.splits)
qed

lemma prepare_dataset_accepted:
  assumes "truthy (dataset_uuid (ctx s)) \<or> truthy (dataset_name (ctx s))"
      and "\<forall>n c. snd (server env n c) = None"
  shows "fst (prepare_dataset env s) = None"
  using assms by (auto simp add: prepare_dataset_def step_defs)

lemma perform_upload_accepted:
  assumes "\<forall>n c. snd (server env n c) = None"
      and "\<forall>n d. fst (server env n (DatafilesCreate d)) \<noteq> None"
  shows "fst (perform_upload env s) = None
         \<and> status (snd (perform_upload env s)) = (Status_UPLOADING, Substatus_UPLOADING, None)
         \<and> datafile (snd (perform_upload env s)) \<noteq> None"
  using assms by (simp add: perform_upload_def get_upload_data_def step_defs)

lemma update_file_metadata_accepted:
  assumes ok: "\<forall>n c. snd (server env n c) = None"
      and tags: "tags_accepted env (ctx s) t"
      and df: "datafile s \<noteq> None"
  shows "fst (update_file_metadata env i t s) = None
         \<and> status (snd (update_file_metadata env i t s)) = (Status_OK, Substatus_DONE, None)"
proof -
  from df obtain d where d: "datafile s = Some d" by auto
  have "snd (metadata_response env i t s d) = None"
    using ok by (simp add: metadata_response_def)
  then show ?thesis
    using update_file_metadata_request [OF tags d, of i] by simp
qed

lemma upload_file_all_accepted:
  assumes v: "is_validated (ctx s)"
      and d: "truthy (dataset_uuid (ctx s)) \<or> truthy (dataset_name (ctx s))"
      and ok: "\<forall>n c. snd (server env n c) = None"
      and rec: "\<forall>n d. fst (server env n (DatafilesCreate d)) \<noteq> None"
      and tags: "\<forall>c. tags_accepted env c t"
  shows "fst (upload_file env i t s) = Inr (Status_OK, Substatus_DONE, None)
         \<and> status (snd (upload_file env i t s)) = (Status_OK, Substatus_DONE, None)"
proof -
  let ?s0 = "info s '' Opening upload sequence.''"
  have "fst (prepare_dataset env ?s0) = None"
    using prepare_dataset_accepted [of ?s0 env] d ok by simp
  then obtain s1 where p: "prepare_dataset env ?s0 = (None, s1)"
    by (cases "prepare_dataset env ?s0") simp
  have "fst (perform_upload env s1) = None
         \<and> status (snd (perform_upload env s1)) = (Status_UPLOADING, Substatus_UPLOADING, None)
         \<and> datafile (snd (perform_upload env s1)) \<noteq> None"
    using perform_upload_accepted [OF ok rec] .
  then obtain s2 where u: "perform_upload env s1 = (None, s2)"
    and st: "status s2 = (Status_UPLOADING, Substatus_UPLOADING, None)"
    and df: "datafile s2 \<noteq> None"
    by (cases "perform_upload env s1") simp
  let ?s3 = "info s2 '' Upload done.''"
  have df3: "datafile ?s3 \<noteq> None"
    using df by (simp add: info_def)
  have t3: "tags_accepted env (ctx ?s3) t"
    using tags by blast
  have "fst (update_file_metadata env i t ?s3) = None
         \<and> status (snd (update_file_metadata env i t ?s3)) = (Status_OK, Substatus_DONE, None)"
    using update_file_metadata_accepted [OF ok t3 df3] .
  then obtain s4 where m: "update_file_metadata env i t ?s3 = (None, s4)"
    and st4: "status s4 = (Status_OK, Substatus_DONE, None)"
    by (cases "update_file_metadata env i t ?s3") simp
  have f: "finish_upload env i t s2 =
        (Inr (Status_OK, Substatus_DONE, None), info s4 '' Closing upload sequence.'')"
    using st m st4
    by (simp add: finish_upload_def try_update_file_metadata_def Let_def info_def)
  have "upload_file env i t s = finish_upload env i t s2"
    using v p u by (simp add: upload_file_def try_prepare_dataset_def try_perform_upload_def Let_def)
  with f st4 show ?thesis by (simp add: info_def)
qed

lemma str_nat_examples [simp]:
  "str_nat 1024 = ''1024''" "str_nat 500 = ''500''" "str_nat 400 = ''400''"
  by (simp_all add: str_nat.simps)

section \<open>The claims\<close>

text \<open>
  Claim C1: when the transport's request fails with a message that contains
  \<^verbatim>\<open>already exists in dataset\<close>, \<^verbatim>\<open>_perform_upload\<close> returns without raising and leaves
  the status \<open>(SKIPPED, ALREADY_SYNCED, None)\<close>; on any other failure it leaves
  \<open>(ERROR, ERROR, None)\<close> and raises \<^verbatim>\<open>UploadRemoteFileError\<close> with the status code and
  the message. When the transport phase ends with status \<open>SKIPPED\<close>, \<^verbatim>\<open>upload_file\<close>
  returns that status and adds only its two log lines: the tagger is not invoked.
\<close>

theorem perform_upload_already_exists_skips:
  "(snd (upload_response env s) = Some e \<and> contains ''already exists in dataset'' (err_message e) \<longrightarrow>
      fst (perform_upload env s) = None \<and>
      status (snd (perform_upload env s)) = (Status_SKIPPED, Substatus_ALREADY_SYNCED, None))
   \<and> (snd (upload_response env s) = Some e \<and> \<not> contains ''already exists in dataset'' (err_message e) \<longrightarrow>
      fst (perform_upload env s) =
        Some (UploadRemoteFileError (str_int (err_status e) @ '' - '' @ err_message e)) \<and>
      status (snd (perform_upload env s)) = (Status_ERROR, Substatus_ERROR, None))
   \<and> (is_validated (ctx s) \<and>
      try_prepare_dataset env (info s '' Opening upload sequence.'') = (None, s1) \<and>
      try_perform_upload env s1 = (None, s2) \<and> fst (status s2) = Status_SKIPPED \<longrightarrow>
      upload_file env i t s =
        (Inr (Status_SKIPPED, Substatus_ALREADY_SYNCED, None),
         s2\<lparr>effects := effects s2 @
              [Log (log_prefix s2 @ '' Upload skipped.''),
               Log (log_prefix s2 @ '' Closing upload sequence.'')]\<rparr>))"
proof (intro conjI impI)
  assume h: "is_validated (ctx s) \<and>
      try_prepare_dataset env (info s '' Opening upload sequence.'') = (None, s1) \<and>
      try_perform_upload env s1 = (None, s2) \<and> fst (status s2) = Status_SKIPPED"
  then have "status s2 = (Status_SKIPPED, Substatus_ALREADY_SYNCED, None)"
    by (auto simp: try_perform_upload_def split: prod.splits option.splits upload_error.splits
          dest: perform_upload_returns)
  with h show "upload_file env i t s =
        (Inr (Status_SKIPPED, Substatus_ALREADY_SYNCED, None),
         s2\<lparr>effects := effects s2 @
              [Log (log_prefix s2 @ '' Upload skipped.''),
               Log (log_prefix s2 @ '' Closing upload sequence.'')]\<rparr>)"
    by (simp add: upload_file_def finish_upload_def info_def Let_def)
qed (simp_all add: perform_upload_def upload_response_def get_upload_data_def step_defs)

text \<open>
  A run for C1: a fresh uploader whose transport request is answered with a duplicate
  error, one answered with a server error, and a whole sequence whose upload is a
  duplicate.
\<close>

theorem perform_upload_already_exists_skips_witness:
  "snd (upload_response (example_env (failing [0] duplicate_error))
          (example_uploader (example_ctx\<lparr>dataset_uuid := Some ''d1''\<rparr>))) = Some duplicate_error
   \<and> contains ''already exists in dataset'' (err_message duplicate_error)
   \<and> fst (perform_upload (example_env (failing [0] duplicate_error))
        (example_uploader (example_ctx\<lparr>dataset_uuid := Some ''d1''\<rparr>))) = None
   \<and> status (snd (perform_upload (example_env (failing [0] duplicate_error))
        (example_uploader (example_ctx\<lparr>dataset_uuid := Some ''d1''\<rparr>)))) =
       (Status_SKIPPED, Substatus_ALREADY_SYNCED, None)
   \<and> snd (upload_response (example_env (failing [0] server_error))
          (example_uploader (example_ctx\<lparr>dataset_uuid := Some ''d1''\<rparr>))) = Some server_error
   \<and> \<not> contains ''already exists in dataset'' (err_message server_error)
   \<and> fst (perform_upload (example_env (failing [0] server_error))
        (example_uploader (example_ctx\<lparr>dataset_uuid := Some ''d1''\<rparr>))) =
       Some (UploadRemoteFileError ''500 - Server Error'')
   \<and> status (snd (perform_upload (example_env (failing [0] server_error))
        (example_uploader (example_ctx\<lparr>dataset_uuid := Some ''d1''\<rparr>)))) =
       (Status_ERROR, Substatus_ERROR, None)
   \<and> upload_file (example_env (failing [1] duplicate_error)) None None
        (example_uploader example_ctx) =
       (Inr (Status_SKIPPED, Substatus_ALREADY_SYNCED, None),
        (example_uploader example_ctx)
          \<lparr>ctx := example_ctx\<lparr>dataset_uuid := Some ''d1''\<rparr>,
            status := (Status_SKIPPED, Substatus_ALREADY_SYNCED, None),
            effects :=
              [Log ''[a.fits] Opening upload sequence.'',
               Log ''[a.fits] Preparing Dataset...'',
               Call (DatasetsCreate [(''name'', PyStr ''M31-survey'')]),
               Log ''[a.fits] Dataset preparation done.'',
               Log ''[a.fits] Start uploading...'',
               Log ''[a.fits] Starting upload to Arcsecond (1024 bytes)'',
               Call (DatafilesCreate
                 \<lparr>ud_dataset = Some ''d1'', ud_file_name = ''a.fits'', ud_handle = 0\<rparr>),
               Log ''[a.fits] Upload skipped.'',
               Log ''[a.fits] Closing upload sequence.''],
            handles := [Opened]\<rparr>)"
proof -
  let ?D = "example_env (failing [0] duplicate_error)"
  let ?F = "example_env (failing [0] server_error)"
  let ?V = "example_uploader (example_ctx\<lparr>dataset_uuid := Some ''d1''\<rparr>)"
  have a1: "snd (upload_response ?D ?V) = Some duplicate_error"
    by (simp add: upload_response_def get_upload_data_def example_defs)
  have a2: "contains ''already exists in dataset'' (err_message duplicate_error)"
    by (simp add: duplicate_error_def)
  have a3: "fst (perform_upload ?D ?V) = None"
    and a4: "status (snd (perform_upload ?D ?V)) = (Status_SKIPPED, Substatus_ALREADY_SYNCED, None)"
    using perform_upload_already_exists_skips [where env = ?D and s = ?V and e = duplicate_error]
      a1 a2 by blast+
  have b1: "snd (upload_response ?F ?V) = Some server_error"
    by (simp add: upload_response_def get_upload_data_def example_defs)
  have b2: "\<not> contains ''already exists in dataset'' (err_message server_error)"
    by (simp add: server_error_def)
  have b3: "fst (perform_upload ?F ?V) =
      Some (UploadRemoteFileError (str_int (err_status server_error) @ '' - '' @
        err_message server_error))"
    and b4: "status (snd (perform_upload ?F ?V)) = (Status_ERROR, Substatus_ERROR, None)"
    using perform_upload_already_exists_skips [where env = ?F and s = ?V and e = server_error]
      b1 b2 by blast+
  have b5: "str_int (err_status server_error) @ '' - '' @ err_message server_error =
      ''500 - Server Error''"
    by (simp add: server_error_def str_int_def)
  have b6: "fst (perform_upload ?F ?V) = Some (UploadRemoteFileError ''500 - Server Error'')"
    using b3 b5 by simp
  let ?E = "example_env (failing [1] duplicate_error)"
  let ?U = "example_uploader example_ctx"
  let ?P = "snd (try_prepare_dataset ?E (info ?U '' Opening upload sequence.''))"
  let ?Q = "snd (try_perform_upload ?E ?P)"
  have c1: "is_validated (ctx ?U)"
    by (simp add: example_defs)
  have c2: "try_prepare_dataset ?E (info ?U '' Opening upload sequence.'') = (None, ?P)"
    by (simp add: run_defs example_defs)
  have c3: "try_perform_upload ?E ?P = (None, ?Q)"
    by (simp add: run_defs example_defs)
  have c4: "fst (status ?Q) = Status_SKIPPED"
    by (simp add: run_defs example_defs)
  have c5: "upload_file ?E None None ?U =
        (Inr (Status_SKIPPED, Substatus_ALREADY_SYNCED, None),
         ?Q\<lparr>effects := effects ?Q @
              [Log (log_prefix ?Q @ '' Upload skipped.''),
               Log (log_prefix ?Q @ '' Closing upload sequence.'')]\<rparr>)"
    using perform_upload_already_exists_skips
      [where env = ?E and s = ?U and ?s1.0 = ?P and ?s2.0 = ?Q and i = None and t = None]
      c1 c2 c3 c4 by blast
  have c6: "?Q\<lparr>effects := effects ?Q @
              [Log (log_prefix ?Q @ '' Upload skipped.''),
               Log (log_prefix ?Q @ '' Closing upload sequence.'')]\<rparr> =
        ?U\<lparr>ctx := example_ctx\<lparr>dataset_uuid := Some ''d1''\<rparr>,
            status := (Status_SKIPPED, Substatus_ALREADY_SYNCED, None),
            effects :=
              [Log ''[a.fits] Opening upload sequence.'',
               Log ''[a.fits] Preparing Dataset...'',
               Call (DatasetsCreate [(''name'', PyStr ''M31-survey'')]),
               Log ''[a.fits] Dataset preparation done.'',
               Log ''[a.fits] Start uploading...'',
               Log ''[a.fits] Starting upload to Arcsecond (1024 bytes)'',
               Call (DatafilesCreate
                 \<lparr>ud_dataset = Some ''d1'', ud_file_name = ''a.fits'', ud_handle = 0\<rparr>),
               Log ''[a.fits] Upload skipped.'',
               Log ''[a.fits] Closing upload sequence.''],
            handles := [Opened]\<rparr>"
    by (simp add: run_defs example_defs)
  have c7: "upload_file ?E None None ?U =
       (Inr (Status_SKIPPED, Substatus_ALREADY_SYNCED, None),
        ?U\<lparr>ctx := example_ctx\<lparr>dataset_uuid := Some ''d1''\<rparr>,
            status := (Status_SKIPPED, Substatus_ALREADY_SYNCED, None),
            effects :=
              [Log ''[a.fits] Opening upload sequence.'',
               Log ''[a.fits] Preparing Dataset...'',
               Call (DatasetsCreate [(''name'', PyStr ''M31-survey'')]),
               Log ''[a.fits] Dataset preparation done.'',
               Log ''[a.fits] Start uploading...'',
               Log ''[a.fits] Starting upload to Arcsecond (1024 bytes)'',
               Call (DatafilesCreate
                 \<lparr>ud_dataset = Some ''d1'', ud_file_name = ''a.fits'', ud_handle = 0\<rparr>),
               Log ''[a.fits] Upload skipped.'',
               Log ''[a.fits] Closing upload sequence.''],
            handles := [Opened]\<rparr>)"
    using c5 c6 by (simp only:)
  show ?thesis
    by (intro conjI) (fact a1 a2 a3 a4 b1 b2 b6 b4 c7)+
qed

text \<open>
  Claim C2: in each phase, a first failure of the phase's own error class is followed by
  a pause of one second and exactly one more attempt. If that attempt fails too,
  \<^verbatim>\<open>upload_file\<close> raises its error, which is of the phase's class, in the state the
  attempt left: no later phase has run. If it succeeds, the sequence goes on from there.
\<close>

theorem upload_file_retries_once:
  assumes "is_validated (ctx s)"
  shows
   "(prepare_dataset env (info s '' Opening upload sequence.'') =
        (Some (UploadRemoteDatasetPreparationError m), s1) \<and>
     prepare_dataset env (sleep 1 s1) = (Some e, s2) \<longrightarrow>
       upload_file env i t s = (Inl e, s2) \<and> (\<exists>m'. e = UploadRemoteDatasetPreparationError m'))
    \<and> (prepare_dataset env (info s '' Opening upload sequence.'') =
        (Some (UploadRemoteDatasetPreparationError m), s1) \<and>
     prepare_dataset env (sleep 1 s1) = (None, s2) \<longrightarrow>
       try_prepare_dataset env (info s '' Opening upload sequence.'') = (None, s2))
    \<and> (try_prepare_dataset env (info s '' Opening upload sequence.'') = (None, s1) \<and>
     perform_upload env s1 = (Some (UploadRemoteFileError m), s2) \<and>
     perform_upload env (sleep 1 s2) = (Some e, s3) \<longrightarrow>
       upload_file env i t s = (Inl e, s3) \<and> (\<exists>m'. e = UploadRemoteFileError m'))
    \<and> (try_prepare_dataset env (info s '' Opening upload sequence.'') = (None, s1) \<and>
     perform_upload env s1 = (Some (UploadRemoteFileError m), s2) \<and>
     perform_upload env (sleep 1 s2) = (None, s3) \<longrightarrow>
       upload_file env i t s = finish_upload env i t s3)
    \<and> (try_prepare_dataset env (info s '' Opening upload sequence.'') = (None, s1) \<and>
     try_perform_upload env s1 = (None, s2) \<and> fst (status s2) \<noteq> Status_SKIPPED \<and>
     update_file_metadata env i t (info s2 '' Upload done.'') =
        (Some (UploadRemoteFileMetadataError m), s3) \<and>
     update_file_metadata env i t (sleep 1 s3) = (Some e, s4) \<longrightarrow>
       upload_file env i t s = (Inl e, s4) \<and> (\<exists>m'. e = UploadRemoteFileMetadataError m'))
    \<and> (try_prepare_dataset env (info s '' Opening upload sequence.'') = (None, s1) \<and>
     try_perform_upload env s1 = (None, s2) \<and> fst (status s2) \<noteq> Status_SKIPPED \<and>
     update_file_metadata env i t (info s2 '' Upload done.'') =
        (Some (UploadRemoteFileMetadataError m), s3) \<and>
     update_file_metadata env i t (sleep 1 s3) = (None, s4) \<longrightarrow>
       upload_file env i t s =
         (Inr (Status_OK, Substatus_DONE, None),
          s4\<lparr>effects := effects s4 @ [Log (log_prefix s4 @ '' Closing upload sequence.'')]\<rparr>))"
proof (intro conjI impI)
  assume h: "prepare_dataset env (info s '' Opening upload sequence.'') =
        (Some (UploadRemoteDatasetPreparationError m), s1) \<and>
     prepare_dataset env (sleep 1 s1) = (Some e, s2)"
  with assms show "upload_file env i t s = (Inl e, s2)"
    by (simp add: upload_file_def try_prepare_dataset_def Let_def info_def)
  from h show "\<exists>m'. e = UploadRemoteDatasetPreparationError m'"
    using prepare_dataset_retry_kind by blast
next
  assume "prepare_dataset env (info s '' Opening upload sequence.'') =
        (Some (UploadRemoteDatasetPreparationError m), s1) \<and>
     prepare_dataset env (sleep 1 s1) = (None, s2)"
  then show "try_prepare_dataset env (info s '' Opening upload sequence.'') = (None, s2)"
    by (simp add: try_prepare_dataset_def)
next
  assume h: "try_prepare_dataset env (info s '' Opening upload sequence.'') = (None, s1) \<and>
     perform_upload env s1 = (Some (UploadRemoteFileError m), s2) \<and>
     perform_upload env (sleep 1 s2) = (Some e, s3)"
  with assms show "upload_file env i t s = (Inl e, s3)"
    by (simp add: upload_file_def try_perform_upload_def Let_def info_def)
  from h show "\<exists>m'. e = UploadRemoteFileError m'"
    using perform_upload_raises by blast
next
  assume h: "try_prepare_dataset env (info s '' Opening upload sequence.'') = (None, s1) \<and>
     perform_upload env s1 = (Some (UploadRemoteFileError m), s2) \<and>
     perform_upload env (sleep 1 s2) = (None, s3)"
  with assms show "upload_file env i t s = finish_upload env i t s3"
    by (simp add: upload_file_def try_perform_upload_def Let_def info_def)
next
  assume h: "try_prepare_dataset env (info s '' Opening upload sequence.'') = (None, s1) \<and>
     try_perform_upload env s1 = (None, s2) \<and> fst (status s2) \<noteq> Status_SKIPPED \<and>
     update_file_metadata env i t (info s2 '' Upload done.'') =
        (Some (UploadRemoteFileMetadataError m), s3) \<and>
     update_file_metadata env i t (sleep 1 s3) = (Some e, s4)"
  with assms show "upload_file env i t s = (Inl e, s4)"
    by (simp add: upload_file_def finish_upload_def try_update_file_metadata_def Let_def info_def)
  from h show "\<exists>m'. e = UploadRemoteFileMetadataError m'"
    using update_file_metadata_retry_kind by blast
next
  assume h: "try_prepare_dataset env (info s '' Opening upload sequence.'') = (None, s1) \<and>
     try_perform_upload env s1 = (None, s2) \<and> fst (status s2) \<noteq> Status_SKIPPED \<and>
     update_file_metadata env i t (info s2 '' Upload done.'') =
        (Some (UploadRemoteFileMetadataError m), s3) \<and>
     update_file_metadata env i t (sleep 1 s3) = (None, s4)"
  then have "status s4 = (Status_OK, Substatus_DONE, None)"
    using update_file_metadata_returns by blast
  with h assms show "upload_file env i t s =
         (Inr (Status_OK, Substatus_DONE, None),
          s4\<lparr>effects := effects s4 @ [Log (log_prefix s4 @ '' Closing upload sequence.'')]\<rparr>)"
    by (simp add: upload_file_def finish_upload_def try_update_file_metadata_def Let_def info_def)
qed

text \<open>
  Runs for C2: the server fails the dataset request twice, then the upload twice, then
  the metadata update twice. Each trace holds one pause of one second between the two
  attempts and nothing after the second failure.
\<close>

theorem upload_file_retries_once_witness:
  "is_validated (ctx (example_uploader example_ctx))
   \<and> upload_file (example_env (failing [0, 1] server_error)) None None
        (example_uploader example_ctx) =
       (Inl (UploadRemoteDatasetPreparationError ''Server Error''),
        (example_uploader example_ctx)
          \<lparr>status := (Status_PREPARING, Substatus_CHECKING, None),
            effects :=
              [Log ''[a.fits] Opening upload sequence.'',
               Log ''[a.fits] Preparing Dataset...'',
               Call (DatasetsCreate [(''name'', PyStr ''M31-survey'')]),
               Log ''[a.fits] Dataset preparation failed..'',
               Sleep 1,
               Log ''[a.fits] Preparing Dataset...'',
               Call (DatasetsCreate [(''name'', PyStr ''M31-survey'')]),
               Log ''[a.fits] Dataset preparation failed..'']\<rparr>)
   \<and> fst (upload_file (example_env (failing [1, 2] server_error)) None None
        (example_uploader example_ctx)) =
       Inl (UploadRemoteFileError ''500 - Server Error'')
   \<and> effects (snd (upload_file (example_env (failing [1, 2] server_error)) None None
        (example_uploader example_ctx))) =
       [Log ''[a.fits] Opening upload sequence.'',
        Log ''[a.fits] Preparing Dataset...'',
        Call (DatasetsCreate [(''name'', PyStr ''M31-survey'')]),
        Log ''[a.fits] Dataset preparation done.'',
        Log ''[a.fits] Start uploading...'',
        Log ''[a.fits] Starting upload to Arcsecond (1024 bytes)'',
        Call (DatafilesCreate
          \<lparr>ud_dataset = Some ''d1'', ud_file_name = ''a.fits'', ud_handle = 0\<rparr>),
        Log ''[a.fits] Upload of file /data/a.fits failed.'',
        Sleep 1,
        Log ''[a.fits] Start uploading...'',
        Log ''[a.fits] Starting upload to Arcsecond (1024 bytes)'',
        Call (DatafilesCreate
          \<lparr>ud_dataset = Some ''d1'', ud_file_name = ''a.fits'', ud_handle = 1\<rparr>),
        Log ''[a.fits] Upload of file /data/a.fits failed.'']
   \<and> fst (upload_file (example_env (failing [2, 3] server_error)) None None
        (example_uploader example_ctx)) =
       Inl (UploadRemoteFileMetadataError ''Server Error'')
   \<and> drop 8 (effects (snd (upload_file (example_env (failing [2, 3] server_error)) None None
        (example_uploader example_ctx)))) =
       [Log ''[a.fits] Upload done.'',
        Log ''[a.fits] Updating file metadata....'',
        Call (DatafilesUpdate (PyStr ''7'')
          [(''tags'', PyList [''arcsecond|root|/data'', ''arcsecond|origin|host'',
                              ''arcsecond|uploader|alice'', ''arcsecond|version|1.0'']),
           (''is_raw'', PyBool True), (''fsname'', PyStr ''host''),
           (''fspath'', PyStr ''/data'')]),
        Log ''[a.fits] Update of metadata failed.'',
        Sleep 1,
        Log ''[a.fits] Updating file metadata....'',
        Call (DatafilesUpdate (PyStr ''7'')
          [(''tags'', PyList [''arcsecond|root|/data'', ''arcsecond|origin|host'',
                              ''arcsecond|uploader|alice'', ''arcsecond|version|1.0'']),
           (''is_raw'', PyBool True), (''fsname'', PyStr ''host''),
           (''fspath'', PyStr ''/data'')]),
        Log ''[a.fits] Update of metadata failed.'']"
proof -
  let ?U = "example_uploader example_ctx"
  let ?I = "info ?U '' Opening upload sequence.''"
  have v: "is_validated (ctx ?U)"
    by (simp add: example_defs)
  let ?EA = "example_env (failing [0, 1] server_error)"
  let ?aa = "snd (prepare_dataset ?EA ?I)"
  let ?ab = "snd (prepare_dataset ?EA (sleep 1 ?aa))"
  have p1: "prepare_dataset ?EA ?I =
      (Some (UploadRemoteDatasetPreparationError ''Server Error''), ?aa)"
    by (simp add: run_defs example_defs)
  have p2: "prepare_dataset ?EA (sleep 1 ?aa) =
      (Some (UploadRemoteDatasetPreparationError ''Server Error''), ?ab)"
    by (simp add: run_defs example_defs)
  have r1: "upload_file ?EA None None ?U =
      (Inl (UploadRemoteDatasetPreparationError ''Server Error''), ?ab)"
    using upload_file_retries_once [OF v, where env = ?EA and m = "''Server Error''"
        and ?s1.0 = ?aa and e = "UploadRemoteDatasetPreparationError ''Server Error''"
        and ?s2.0 = ?ab and i = None and t = None] p1 p2
    by blast
  let ?EB = "example_env (failing [1, 2] server_error)"
  let ?ba = "snd (try_prepare_dataset ?EB ?I)"
  let ?bb = "snd (perform_upload ?EB ?ba)"
  let ?bc = "snd (perform_upload ?EB (sleep 1 ?bb))"
  have q1: "try_prepare_dataset ?EB ?I = (None, ?ba)"
    by (simp add: run_defs example_defs)
  have q2: "perform_upload ?EB ?ba = (Some (UploadRemoteFileError ''500 - Server Error''), ?bb)"
    by (simp add: run_defs example_defs)
  have q3: "perform_upload ?EB (sleep 1 ?bb) =
      (Some (UploadRemoteFileError ''500 - Server Error''), ?bc)"
    by (simp add: run_defs example_defs)
  have r2: "upload_file ?EB None None ?U =
      (Inl (UploadRemoteFileError ''500 - Server Error''), ?bc)"
    using upload_file_retries_once [OF v, where env = ?EB and m = "''500 - Server Error''"
        and ?s1.0 = ?ba and ?s2.0 = ?bb and e = "UploadRemoteFileError ''500 - Server Error''"
        and ?s3.0 = ?bc and i = None and t = None] q1 q2 q3
    by blast
  let ?EC = "example_env (failing [2, 3] server_error)"
  let ?ca = "snd (try_prepare_dataset ?EC ?I)"
  let ?cb = "snd (try_perform_upload ?EC ?ca)"
  let ?cc = "snd (update_file_metadata ?EC None None (info ?cb '' Upload done.''))"
  let ?cd = "snd (update_file_metadata ?EC None None (sleep 1 ?cc))"
  have t1: "try_prepare_dataset ?EC ?I = (None, ?ca)"
    by (simp add: run_defs example_defs)
  have t2: "try_perform_upload ?EC ?ca = (None, ?cb)"
    by (simp add: run_defs example_defs)
  have t3: "fst (status ?cb) \<noteq> Status_SKIPPED"
    by (simp add: run_defs example_defs)
  have t4: "update_file_metadata ?EC None None (info ?cb '' Upload done.'') =
      (Some (UploadRemoteFileMetadataError ''Server Error''), ?cc)"
    by (simp add: run_defs example_defs)
  have t5: "update_file_metadata ?EC None None (sleep 1 ?cc) =
      (Some (UploadRemoteFileMetadataError ''Server Error''), ?cd)"
    by (simp add: run_defs example_defs)
  have r3: "upload_file ?EC None None ?U =
      (Inl (UploadRemoteFileMetadataError ''Server Error''), ?cd)"
    using upload_file_retries_once [OF v, where env = ?EC and m = "''Server Error''"
        and ?s1.0 = ?ca and ?s2.0 = ?cb and ?s3.0 = ?cc
        and e = "UploadRemoteFileMetadataError ''Server Error''"
        and ?s4.0 = ?cd and i = None and t = None] t1 t2 t3 t4 t5
    by blast
  have e1: "?ab = ?U
          \<lparr>status := (Status_PREPARING, Substatus_CHECKING, None),
            effects :=
              [Log ''[a.fits] Opening upload sequence.'',
               Log ''[a.fits] Preparing Dataset...'',
               Call (DatasetsCreate [(''name'', PyStr ''M31-survey'')]),
               Log ''[a.fits] Dataset preparation failed..'',
               Sleep 1,
               Log ''[a.fits] Preparing Dataset...'',
               Call (DatasetsCreate [(''name'', PyStr ''M31-survey'')]),
               Log ''[a.fits] Dataset preparation failed..'']\<rparr>"
    by (simp add: run_defs example_defs)
  have e2: "effects ?bc =
       [Log ''[a.fits] Opening upload sequence.'',
        Log ''[a.fits] Preparing Dataset...'',
        Call (DatasetsCreate [(''name'', PyStr ''M31-survey'')]),
        Log ''[a.fits] Dataset preparation done.'',
        Log ''[a.fits] Start uploading...'',
        Log ''[a.fits] Starting upload to Arcsecond (1024 bytes)'',
        Call (DatafilesCreate
          \<lparr>ud_dataset = Some ''d1'', ud_file_name = ''a.fits'', ud_handle = 0\<rparr>),
        Log ''[a.fits] Upload of file /data/a.fits failed.'',
        Sleep 1,
        Log ''[a.fits] Start uploading...'',
        Log ''[a.fits] Starting upload to Arcsecond (1024 bytes)'',
        Call (DatafilesCreate
          \<lparr>ud_dataset = Some ''d1'', ud_file_name = ''a.fits'', ud_handle = 1\<rparr>),
        Log ''[a.fits] Upload of file /data/a.fits failed.'']"
    by (simp add: run_defs example_defs)
  have e3: "drop 8 (effects ?cd) =
       [Log ''[a.fits] Upload done.'',
        Log ''[a.fits] Updating file metadata....'',
        Call (DatafilesUpdate (PyStr ''7'')
          [(''tags'', PyList [''arcsecond|root|/data'', ''arcsecond|origin|host'',
                              ''arcsecond|uploader|alice'', ''arcsecond|version|1.0'']),
           (''is_raw'', PyBool True), (''fsname'', PyStr ''host''),
           (''fspath'', PyStr ''/data'')]),
        Log ''[a.fits] Update of metadata failed.'',
        Sleep 1,
        Log ''[a.fits] Updating file metadata....'',
        Call (DatafilesUpdate (PyStr ''7'')
          [(''tags'', PyList [''arcsecond|root|/data'', ''arcsecond|origin|host'',
                              ''arcsecond|uploader|alice'', ''arcsecond|version|1.0'']),
           (''is_raw'', PyBool True), (''fsname'', PyStr ''host''),
           (''fspath'', PyStr ''/data'')]),
        Log ''[a.fits] Update of metadata failed.'']"
    by (simp add: run_defs example_defs)
  show ?thesis
    using v r1 r2 r3 e1 e2 e3 by simp
qed

text \<open>
  Claim C3: with a context that is not validated, \<^verbatim>\<open>upload_file\<close> raises
  \<^verbatim>\<open>UploadRemoteFileInvalidatedContextError\<close> at once. The uploader is left as it was but
  for the opening log line: no request is issued, and the status of a fresh uploader is
  still \<open>(NEW, PENDING, None)\<close>.
\<close>

theorem upload_file_invalidated_context:
  assumes "\<not> is_validated (ctx s)"
  shows "upload_file env is_raw tags_arg s =
           (Inl UploadRemoteFileInvalidatedContextError,
            s\<lparr>effects := effects s @ [Log (log_prefix s @ '' Opening upload sequence.'')]\<rparr>)
         \<and> calls (effects (snd (upload_file env is_raw tags_arg s))) = calls (effects s)
         \<and> (s = init_uploader c rp fp nm pf \<longrightarrow>
              status (snd (upload_file env is_raw tags_arg s)) = (Status_NEW, Substatus_PENDING, None))"
  using assms by (auto simp add: upload_file_def info_def init_uploader_def Let_def)

text \<open>A run for C3: the example context with its validation flag cleared.\<close>

theorem upload_file_invalidated_context_witness:
  "\<not> is_validated (ctx (example_uploader (example_ctx\<lparr>is_validated := False\<rparr>)))
   \<and> upload_file (example_env accepting) None None
         (example_uploader (example_ctx\<lparr>is_validated := False\<rparr>)) =
       (Inl UploadRemoteFileInvalidatedContextError,
        (example_uploader (example_ctx\<lparr>is_validated := False\<rparr>))
          \<lparr>effects := [Log ''[a.fits] Opening upload sequence.'']\<rparr>)
   \<and> status (snd (upload_file (example_env accepting) None None
         (example_uploader (example_ctx\<lparr>is_validated := False\<rparr>)))) =
       (Status_NEW, Substatus_PENDING, None)
   \<and> calls (effects (snd (upload_file (example_env accepting) None None
         (example_uploader (example_ctx\<lparr>is_validated := False\<rparr>))))) = []"
proof -
  have h: "\<not> is_validated (ctx (example_uploader (example_ctx\<lparr>is_validated := False\<rparr>)))"
    by (simp add: example_defs)
  show ?thesis
    using h upload_file_invalidated_context [OF h,
        where env = "example_env accepting" and is_raw = None and tags_arg = None
          and c = "example_ctx\<lparr>is_validated := False\<rparr>" and rp = "''/data''"
          and fp = "''/data/a.fits''" and nm = "''a.fits''" and pf = "''[a.fits]''"]
    by (simp add: example_defs)
qed

text \<open>
  Claim C4: with neither a dataset UUID nor a dataset name in the context,
  \<^verbatim>\<open>_prepare_dataset\<close> raises \<^verbatim>\<open>UploadRemoteDatasetCheckError\<close>, and \<^verbatim>\<open>upload_file\<close> lets it
  through without a retry: the trace holds one entry of the resolver, no pause and no
  request.
\<close>

theorem upload_file_no_dataset_not_retried:
  assumes "is_validated (ctx s)"
      and "\<not> truthy (dataset_uuid (ctx s))"
      and "\<not> truthy (dataset_name (ctx s))"
  shows "prepare_dataset env s =
           (Some (UploadRemoteDatasetCheckError ''No dataset specified.''),
            s\<lparr>status := (Status_PREPARING, Substatus_CHECKING, None),
              effects := effects s @ [Log (log_prefix s @ '' Preparing Dataset...'')]\<rparr>)
         \<and> upload_file env is_raw tags_arg s =
           (Inl (UploadRemoteDatasetCheckError ''No dataset specified.''),
            s\<lparr>status := (Status_PREPARING, Substatus_CHECKING, None),
              effects := effects s @
                [Log (log_prefix s @ '' Opening upload sequence.''),
                 Log (log_prefix s @ '' Preparing Dataset...'')]\<rparr>)"
  using assms
  by (simp add: upload_file_def try_prepare_dataset_def prepare_dataset_def info_def)

text \<open>A run for C4: the example context without its dataset name.\<close>

theorem upload_file_no_dataset_not_retried_witness:
  "is_validated (ctx (example_uploader (example_ctx\<lparr>dataset_name := None\<rparr>)))
   \<and> \<not> truthy (dataset_uuid (ctx (example_uploader (example_ctx\<lparr>dataset_name := None\<rparr>))))
   \<and> \<not> truthy (dataset_name (ctx (example_uploader (example_ctx\<lparr>dataset_name := None\<rparr>))))
   \<and> fst (upload_file (example_env accepting) None None
         (example_uploader (example_ctx\<lparr>dataset_name := None\<rparr>))) =
       Inl (UploadRemoteDatasetCheckError ''No dataset specified.'')
   \<and> effects (snd (upload_file (example_env accepting) None None
         (example_uploader (example_ctx\<lparr>dataset_name := None\<rparr>)))) =
       [Log ''[a.fits] Opening upload sequence.'', Log ''[a.fits] Preparing Dataset...'']"
proof -
  have h1: "is_validated (ctx (example_uploader (example_ctx\<lparr>dataset_name := None\<rparr>)))"
    and h2: "\<not> truthy (dataset_uuid (ctx (example_uploader (example_ctx\<lparr>dataset_name := None\<rparr>))))"
    and h3: "\<not> truthy (dataset_name (ctx (example_uploader (example_ctx\<lparr>dataset_name := None\<rparr>))))"
    by (simp_all add: example_defs truthy_def)
  show ?thesis
    using h1 h2 h3
      upload_file_no_dataset_not_retried [OF h1 h2 h3,
        where env = "example_env accepting" and is_raw = None and tags_arg = None]
    by (simp add: example_defs)
qed

text \<open>
  Claim C5: with a dataset UUID, \<^verbatim>\<open>_prepare_dataset\<close> issues one request, an update that
  carries the telescope when the sync flag is set and a read otherwise, and leaves the
  context alone. With a name only, it issues one create request (with the telescope
  when the flag is set) and, on success, writes the returned record into the context.
  A failure of the request is raised as \<^verbatim>\<open>UploadRemoteDatasetPreparationError\<close>.
\<close>

theorem prepare_dataset_branches:
  "(truthy (dataset_uuid (ctx s)) \<longrightarrow>
      prepare_dataset env s =
        (case snd (server env (length (calls (effects s))) (existing_dataset_call (ctx s))) of
           Some e \<Rightarrow>
             (Some (UploadRemoteDatasetPreparationError (err_message e)),
              s\<lparr>status := (Status_PREPARING, Substatus_CHECKING, None),
                effects := effects s @
                  [Log (log_prefix s @ '' Preparing Dataset...''),
                   Call (existing_dataset_call (ctx s)),
                   Log (log_prefix s @ '' Dataset preparation failed..'')]\<rparr>)
         | None \<Rightarrow>
             (None,
              s\<lparr>status := (Status_PREPARING, Substatus_CHECKING, None),
                effects := effects s @
                  [Log (log_prefix s @ '' Preparing Dataset...''),
                   Call (existing_dataset_call (ctx s)),
                   Log (log_prefix s @ '' Dataset preparation done.'')]\<rparr>)))
   \<and> existing_dataset_call (ctx s) =
       (if should_update_dataset_with_telescope (ctx s)
        then DatasetsUpdate (dataset_uuid (ctx s)) [(''telescope'', of_opt (telescope_uuid (ctx s)))]
        else DatasetsRead (dataset_uuid (ctx s)))
   \<and> (\<not> truthy (dataset_uuid (ctx s)) \<and> truthy (dataset_name (ctx s)) \<longrightarrow>
      prepare_dataset env s =
        (case server env (length (calls (effects s))) (DatasetsCreate (create_payload (ctx s))) of
           (data, Some e) \<Rightarrow>
             (Some (UploadRemoteDatasetPreparationError (err_message e)),
              s\<lparr>status := (Status_PREPARING, Substatus_CHECKING, None),
                effects := effects s @
                  [Log (log_prefix s @ '' Preparing Dataset...''),
                   Call (DatasetsCreate (create_payload (ctx s))),
                   Log (log_prefix s @ '' Dataset preparation failed..'')]\<rparr>)
         | (data, None) \<Rightarrow>
             (None,
              s\<lparr>ctx := update_dataset env (ctx s) data,
                status := (Status_PREPARING, Substatus_CHECKING, None),
                effects := effects s @
                  [Log (log_prefix s @ '' Preparing Dataset...''),
                   Call (DatasetsCreate (create_payload (ctx s))),
                   Log (log_prefix s @ '' Dataset preparation done.'')]\<rparr>)))
   \<and> create_payload (ctx s) =
       (''name'', of_opt (dataset_name (ctx s))) #
       (if should_update_dataset_with_telescope (ctx s)
        then [(''telescope'', of_opt (telescope_uuid (ctx s)))] else [])"
  by (simp add: prepare_dataset_def existing_dataset_call_def create_payload_def step_defs
        split: option.splits prod.splits)

text \<open>
  Runs for C5: a context with a UUID and the sync flag, the example context with a name
  only, and the latter against a server that fails the create request.
\<close>

theorem prepare_dataset_branches_witness:
  "truthy (dataset_uuid (ctx (example_uploader
      (example_ctx\<lparr>dataset_uuid := Some ''d0'', should_update_dataset_with_telescope := True,
                    telescope_uuid := Some ''t1''\<rparr>))))
   \<and> prepare_dataset (example_env accepting)
        (example_uploader
          (example_ctx\<lparr>dataset_uuid := Some ''d0'', should_update_dataset_with_telescope := True,
                        telescope_uuid := Some ''t1''\<rparr>)) =
       (None,
        (example_uploader
          (example_ctx\<lparr>dataset_uuid := Some ''d0'', should_update_dataset_with_telescope := True,
                        telescope_uuid := Some ''t1''\<rparr>))
          \<lparr>status := (Status_PREPARING, Substatus_CHECKING, None),
            effects :=
              [Log ''[a.fits] Preparing Dataset...'',
               Call (DatasetsUpdate (Some ''d0'') [(''telescope'', PyStr ''t1'')]),
               Log ''[a.fits] Dataset preparation done.'']\<rparr>)
   \<and> \<not> truthy (dataset_uuid (ctx (example_uploader example_ctx)))
   \<and> truthy (dataset_name (ctx (example_uploader example_ctx)))
   \<and> prepare_dataset (example_env accepting) (example_uploader example_ctx) =
       (None,
        (example_uploader example_ctx)
          \<lparr>ctx := example_ctx\<lparr>dataset_uuid := Some ''d1''\<rparr>,
            status := (Status_PREPARING, Substatus_CHECKING, None),
            effects :=
              [Log ''[a.fits] Preparing Dataset...'',
               Call (DatasetsCreate [(''name'', PyStr ''M31-survey'')]),
               Log ''[a.fits] Dataset preparation done.'']\<rparr>)
   \<and> prepare_dataset (example_env (failing [0] server_error)) (example_uploader example_ctx) =
       (Some (UploadRemoteDatasetPreparationError ''Server Error''),
        (example_uploader example_ctx)
          \<lparr>status := (Status_PREPARING, Substatus_CHECKING, None),
            effects :=
              [Log ''[a.fits] Preparing Dataset...'',
               Call (DatasetsCreate [(''name'', PyStr ''M31-survey'')]),
               Log ''[a.fits] Dataset preparation failed..'']\<rparr>)"
  using prepare_dataset_branches [of "example_uploader
          (example_ctx\<lparr>dataset_uuid := Some ''d0'', should_update_dataset_with_telescope := True,
                        telescope_uuid := Some ''t1''\<rparr>)" "example_env accepting"]
    prepare_dataset_branches [of "example_uploader example_ctx" "example_env accepting"]
    prepare_dataset_branches [of "example_uploader example_ctx"
      "example_env (failing [0] server_error)"]
  by (simp add: example_defs truthy_def of_opt_def dict_get_def)

text \<open>
  Claim C6: for a file of total size 0 the progress computation is said to yield the
  fraction 1.0 without a division error. The source divides by \<^verbatim>\<open>float(self._file_size)\<close>
  with no guard, so on a file of size 0 line 94 raises \<^verbatim>\<open>ZeroDivisionError\<close> for every
  number of bytes read, and no fraction is produced.
\<close>

theorem percent_printer_zero_size_raises:
  "percent_printer_fraction 0 bytes_read = Inl ZeroDivisionError"
  by (simp add: percent_printer_fraction_def)

text \<open>
  Claim C7: when every request is accepted, \<^verbatim>\<open>upload_file\<close> returns
  \<open>(OK, DONE, None)\<close>; it is \<^verbatim>\<open>_update_file_metadata\<close> that sets this status when its
  request is accepted, and when the request fails it sets \<open>(ERROR, ERROR, None)\<close> and
  raises \<^verbatim>\<open>UploadRemoteFileMetadataError\<close>.
\<close>

theorem upload_file_success_status:
  "(is_validated (ctx s) \<and>
    (truthy (dataset_uuid (ctx s)) \<or> truthy (dataset_name (ctx s))) \<and>
    (\<forall>n c. snd (server env n c) = None) \<and>
    (\<forall>n d. fst (server env n (DatafilesCreate d)) \<noteq> None) \<and>
    (\<forall>c. tags_accepted env c t) \<longrightarrow>
      fst (upload_file env i t s) = Inr (Status_OK, Substatus_DONE, None) \<and>
      status (snd (upload_file env i t s)) = (Status_OK, Substatus_DONE, None))
   \<and> (tags_accepted env (ctx s) t \<and> datafile s = Some d \<and>
      snd (metadata_response env i t s d) = None \<longrightarrow>
      fst (update_file_metadata env i t s) = None \<and>
      status (snd (update_file_metadata env i t s)) = (Status_OK, Substatus_DONE, None))
   \<and> (tags_accepted env (ctx s) t \<and> datafile s = Some d \<and>
      snd (metadata_response env i t s d) = Some e \<longrightarrow>
      fst (update_file_metadata env i t s) =
        Some (UploadRemoteFileMetadataError (err_message e)) \<and>
      status (snd (update_file_metadata env i t s)) = (Status_ERROR, Substatus_ERROR, None))"
proof (intro conjI impI)
  assume "is_validated (ctx s) \<and>
    (truthy (dataset_uuid (ctx s)) \<or> truthy (dataset_name (ctx s))) \<and>
    (\<forall>n c. snd (server env n c) = None) \<and>
    (\<forall>n d. fst (server env n (DatafilesCreate d)) \<noteq> None) \<and>
    (\<forall>c. tags_accepted env c t)"
  then have r: "fst (upload_file env i t s) = Inr (Status_OK, Substatus_DONE, None)
         \<and> status (snd (upload_file env i t s)) = (Status_OK, Substatus_DONE, None)"
    using upload_file_all_accepted [of s env t i] by blast
  from r show "fst (upload_file env i t s) = Inr (Status_OK, Substatus_DONE, None)" by simp
  from r show "status (snd (upload_file env i t s)) = (Status_OK, Substatus_DONE, None)" by simp
next
  assume h: "tags_accepted env (ctx s) t \<and> datafile s = Some d \<and>
      snd (metadata_response env i t s d) = None"
  then have r: "update_file_metadata env i t s =
      (None,
       s\<lparr>status := (Status_OK, Substatus_DONE, None),
         effects := effects s @
           [Log (log_prefix s @ '' Updating file metadata....''),
            Call (DatafilesUpdate (dict_get d ''pk'')
                    (build_payload env (ctx s) (root_path s) i t))]\<rparr>)"
    using update_file_metadata_request [of env s t d i] by simp
  from r show "fst (update_file_metadata env i t s) = None" by simp
  from r show "status (snd (update_file_metadata env i t s)) = (Status_OK, Substatus_DONE, None)"
    by simp
next
  assume h: "tags_accepted env (ctx s) t \<and> datafile s = Some d \<and>
      snd (metadata_response env i t s d) = Some e"
  then have r: "update_file_metadata env i t s =
      (Some (UploadRemoteFileMetadataError (err_message e)),
       s\<lparr>status := (Status_ERROR, Substatus_ERROR, None),
         effects := effects s @
           [Log (log_prefix s @ '' Updating file metadata....''),
            Call (DatafilesUpdate (dict_get d ''pk'')
                    (build_payload env (ctx s) (root_path s) i t)),
            Log (log_prefix s @ '' Update of metadata failed.'')]\<rparr>)"
    using update_file_metadata_request [of env s t d i] by simp
  from r show "fst (update_file_metadata env i t s) =
        Some (UploadRemoteFileMetadataError (err_message e))" by simp
  from r show "status (snd (update_file_metadata env i t s)) = (Status_ERROR, Substatus_ERROR, None)"
    by simp
qed

text \<open>
  Runs for C7: the whole sequence against a server that accepts every request, with the
  requests it issues, and a metadata update that the server fails.
\<close>

theorem upload_file_success_status_witness:
  "is_validated (ctx (example_uploader example_ctx))
   \<and> truthy (dataset_name (ctx (example_uploader example_ctx)))
   \<and> (\<forall>n c. snd (server (example_env accepting) n c) = None)
   \<and> (\<forall>n d. fst (server (example_env accepting) n (DatafilesCreate d)) \<noteq> None)
   \<and> (\<forall>c. tags_accepted (example_env accepting) c (Some [''project:x'']))
   \<and> fst (upload_file (example_env accepting) None (Some [''project:x''])
        (example_uploader example_ctx)) = Inr (Status_OK, Substatus_DONE, None)
   \<and> status (snd (upload_file (example_env accepting) None (Some [''project:x''])
        (example_uploader example_ctx))) = (Status_OK, Substatus_DONE, None)
   \<and> calls (effects (snd (upload_file (example_env accepting) None (Some [''project:x''])
        (example_uploader example_ctx)))) =
       [DatasetsCreate [(''name'', PyStr ''M31-survey'')],
        DatafilesCreate \<lparr>ud_dataset = Some ''d1'', ud_file_name = ''a.fits'', ud_handle = 0\<rparr>,
        DatafilesUpdate (PyStr ''7'')
          [(''tags'', PyList [''arcsecond|root|/data'', ''arcsecond|origin|host'',
                              ''arcsecond|uploader|alice'', ''arcsecond|version|1.0'',
                              ''project:x'']),
           (''is_raw'', PyBool True), (''fsname'', PyStr ''host''),
           (''fspath'', PyStr ''/data'')]]
   \<and> snd (metadata_response (example_env (failing [0] server_error)) None None
        ((example_uploader example_ctx)\<lparr>datafile := Some example_record\<rparr>) example_record) =
       Some server_error
   \<and> fst (update_file_metadata (example_env (failing [0] server_error)) None None
        ((example_uploader example_ctx)\<lparr>datafile := Some example_record\<rparr>)) =
       Some (UploadRemoteFileMetadataError ''Server Error'')
   \<and> status (snd (update_file_metadata (example_env (failing [0] server_error)) None None
        ((example_uploader example_ctx)\<lparr>datafile := Some example_record\<rparr>))) =
       (Status_ERROR, Substatus_ERROR, None)"
proof -
  let ?E = "example_env accepting"
  let ?U = "example_uploader example_ctx"
  have h: "is_validated (ctx ?U) \<and>
    (truthy (dataset_uuid (ctx ?U)) \<or> truthy (dataset_name (ctx ?U))) \<and>
    (\<forall>n c. snd (server ?E n c) = None) \<and>
    (\<forall>n d. fst (server ?E n (DatafilesCreate d)) \<noteq> None) \<and>
    (\<forall>c. tags_accepted ?E c (Some [''project:x'']))"
    by (simp add: example_defs truthy_def tags_accepted_def)
  have r: "fst (upload_file ?E None (Some [''project:x'']) ?U) =
        Inr (Status_OK, Substatus_DONE, None) \<and>
      status (snd (upload_file ?E None (Some [''project:x'']) ?U)) =
        (Status_OK, Substatus_DONE, None)"
    using upload_file_success_status
      [where env = ?E and s = ?U and i = None and t = "Some [''project:x'']"] h
    by blast
  have c: "calls (effects (snd (upload_file ?E None (Some [''project:x'']) ?U))) =
       [DatasetsCreate [(''name'', PyStr ''M31-survey'')],
        DatafilesCreate \<lparr>ud_dataset = Some ''d1'', ud_file_name = ''a.fits'', ud_handle = 0\<rparr>,
        DatafilesUpdate (PyStr ''7'')
          [(''tags'', PyList [''arcsecond|root|/data'', ''arcsecond|origin|host'',
                              ''arcsecond|uploader|alice'', ''arcsecond|version|1.0'',
                              ''project:x'']),
           (''is_raw'', PyBool True), (''fsname'', PyStr ''host''),
           (''fspath'', PyStr ''/data'')]]"
    by (simp add: run_defs example_defs)
  let ?F = "example_env (failing [0] server_error)"
  let ?V = "?U\<lparr>datafile := Some example_record\<rparr>"
  have g: "tags_accepted ?F (ctx ?V) None \<and> datafile ?V = Some example_record \<and>
      snd (metadata_response ?F None None ?V example_record) = Some server_error"
    by (simp add: run_defs example_defs)
  have m: "fst (update_file_metadata ?F None None ?V) =
        Some (UploadRemoteFileMetadataError (err_message server_error)) \<and>
      status (snd (update_file_metadata ?F None None ?V)) = (Status_ERROR, Substatus_ERROR, None)"
    using upload_file_success_status
      [where env = ?F and s = ?V and i = None and t = None and d = example_record
         and e = server_error] g
    by blast
  have msg: "err_message server_error = ''Server Error''"
    by (simp add: server_error_def)
  have m1: "fst (update_file_metadata ?F None None ?V) =
        Some (UploadRemoteFileMetadataError ''Server Error'')"
    using m msg by simp
  have t1: "truthy (dataset_name (ctx ?U))"
    by (simp add: example_defs truthy_def)
  show ?thesis
    using h r c g m m1 t1 by blast
qed

text \<open>
  Claim C8: the tag list is root, origin, uploader, version, then the telescope tag if
  and only if the context has a (non-empty) telescope UUID, then the tags of the call
  or, when the call gives none, those of the context. The request of \<^verbatim>\<open>_update_file_metadata\<close> carries the
  payload built from this list, so two invocations on the same context, root path and
  stored record issue the same request.
\<close>

theorem update_file_metadata_tags_stable:
  "build_tags env c rp t =
     [''arcsecond|root|'' @ rp,
      ''arcsecond|origin|'' @ hostname env,
      ''arcsecond|uploader|'' @ username c,
      ''arcsecond|version|'' @ version env]
     @ (case telescope_uuid c of
          None \<Rightarrow> []
        | Some u \<Rightarrow> if u = [] then [] else [''arcsecond|telescope|'' @ u])
     @ (case t of
          Some ts \<Rightarrow> ts
        | None \<Rightarrow> (case custom_tags c of Some ts \<Rightarrow> ts | None \<Rightarrow> []))
   \<and> build_payload env c rp i t =
       [(''tags'', PyList (build_tags env c rp t)),
        (''is_raw'', PyBool (case i of Some b \<Rightarrow> b | None \<Rightarrow> is_raw_data c)),
        (''fsname'', PyStr (hostname env)),
        (''fspath'', PyStr rp)]
   \<and> (tags_accepted env (ctx s) t \<and> datafile s = Some d \<longrightarrow>
        calls (effects (snd (update_file_metadata env i t s))) =
          calls (effects s) @
            [DatafilesUpdate (dict_get d ''pk'') (build_payload env (ctx s) (root_path s) i t)])
   \<and> (tags_accepted env (ctx s) t \<and> datafile s = Some d \<and>
      ctx s' = ctx s \<and> root_path s' = root_path s \<and> datafile s' = datafile s \<longrightarrow>
        last (calls (effects (snd (update_file_metadata env i t s')))) =
        last (calls (effects (snd (update_file_metadata env i t s)))))"
proof -
  have req: "calls (effects (snd (update_file_metadata env i t u))) =
          calls (effects u) @
            [DatafilesUpdate (dict_get d ''pk'') (build_payload env (ctx u) (root_path u) i t)]"
    if "tags_accepted env (ctx u) t" and "datafile u = Some d" for u
    using update_file_metadata_request [OF that, of i]
    by (simp split: option.splits)
  show ?thesis
  proof (intro conjI impI)
    show "build_tags env c rp t =
     [''arcsecond|root|'' @ rp,
      ''arcsecond|origin|'' @ hostname env,
      ''arcsecond|uploader|'' @ username c,
      ''arcsecond|version|'' @ version env]
     @ (case telescope_uuid c of
          None \<Rightarrow> []
        | Some u \<Rightarrow> if u = [] then [] else [''arcsecond|telescope|'' @ u])
     @ (case t of
          Some ts \<Rightarrow> ts
        | None \<Rightarrow> (case custom_tags c of Some ts \<Rightarrow> ts | None \<Rightarrow> []))"
      by (simp add: build_tags_def truthy_def py_str_def Let_def split: option.splits)
    show "build_payload env c rp i t =
       [(''tags'', PyList (build_tags env c rp t)),
        (''is_raw'', PyBool (case i of Some b \<Rightarrow> b | None \<Rightarrow> is_raw_data c)),
        (''fsname'', PyStr (hostname env)),
        (''fspath'', PyStr rp)]"
      by (simp add: build_payload_def Let_def)
  next
    assume "tags_accepted env (ctx s) t \<and> datafile s = Some d"
    then show "calls (effects (snd (update_file_metadata env i t s))) =
          calls (effects s) @
            [DatafilesUpdate (dict_get d ''pk'') (build_payload env (ctx s) (root_path s) i t)]"
      using req [of s] by simp
  next
    assume h: "tags_accepted env (ctx s) t \<and> datafile s = Some d \<and>
      ctx s' = ctx s \<and> root_path s' = root_path s \<and> datafile s' = datafile s"
    then have "tags_accepted env (ctx s') t" and "datafile s' = Some d"
      by simp_all
    then have "calls (effects (snd (update_file_metadata env i t s'))) =
          calls (effects s') @
            [DatafilesUpdate (dict_get d ''pk'') (build_payload env (ctx s) (root_path s) i t)]"
      using req [of s'] h by simp
    moreover have "calls (effects (snd (update_file_metadata env i t s))) =
          calls (effects s) @
            [DatafilesUpdate (dict_get d ''pk'') (build_payload env (ctx s) (root_path s) i t)]"
      using req [of s] h by simp
    ultimately show "last (calls (effects (snd (update_file_metadata env i t s')))) =
        last (calls (effects (snd (update_file_metadata env i t s))))"
      by simp
  qed
qed

text \<open>
  Runs for C8: tag lists with and without a telescope and call tags, the request of an
  update, and the same request issued again from the state a failed attempt leaves.
\<close>

theorem update_file_metadata_tags_stable_witness:
  "build_tags (example_env accepting)
     (example_ctx\<lparr>telescope_uuid := Some ''t1'', custom_tags := Some [''ctx:tag'']\<rparr>)
     ''/data'' (Some [''project:x'']) =
     [''arcsecond|root|/data'', ''arcsecond|origin|host'', ''arcsecond|uploader|alice'',
      ''arcsecond|version|1.0'', ''arcsecond|telescope|t1'', ''project:x'']
   \<and> build_tags (example_env accepting)
     (example_ctx\<lparr>custom_tags := Some [''ctx:tag'']\<rparr>) ''/data'' None =
     [''arcsecond|root|/data'', ''arcsecond|origin|host'', ''arcsecond|uploader|alice'',
      ''arcsecond|version|1.0'', ''ctx:tag'']
   \<and> tags_accepted (example_env accepting)
        (ctx ((example_uploader example_ctx)\<lparr>datafile := Some example_record\<rparr>))
        (Some [''project:x''])
   \<and> calls (effects (snd (update_file_metadata (example_env accepting) (Some False)
        (Some [''project:x''])
        ((example_uploader example_ctx)\<lparr>datafile := Some example_record\<rparr>)))) =
       [DatafilesUpdate (PyStr ''7'')
          [(''tags'', PyList [''arcsecond|root|/data'', ''arcsecond|origin|host'',
                              ''arcsecond|uploader|alice'', ''arcsecond|version|1.0'',
                              ''project:x'']),
           (''is_raw'', PyBool False), (''fsname'', PyStr ''host''),
           (''fspath'', PyStr ''/data'')]]
   \<and> last (calls (effects (snd (update_file_metadata (example_env accepting) (Some False)
        (Some [''project:x''])
        ((example_uploader example_ctx)
           \<lparr>status := (Status_ERROR, Substatus_ERROR, None),
             datafile := Some example_record, effects := [Sleep 1]\<rparr>))))) =
     last (calls (effects (snd (update_file_metadata (example_env accepting) (Some False)
        (Some [''project:x''])
        ((example_uploader example_ctx)\<lparr>datafile := Some example_record\<rparr>)))))"
proof -
  let ?E = "example_env accepting"
  let ?V = "(example_uploader example_ctx)\<lparr>datafile := Some example_record\<rparr>"
  let ?V' = "(example_uploader example_ctx)
           \<lparr>status := (Status_ERROR, Substatus_ERROR, None),
             datafile := Some example_record, effects := [Sleep 1]\<rparr>"
  let ?t = "Some [''project:x'']"
  have g: "tags_accepted ?E (ctx ?V) ?t \<and> datafile ?V = Some example_record \<and>
      ctx ?V' = ctx ?V \<and> root_path ?V' = root_path ?V \<and> datafile ?V' = datafile ?V"
    by (simp add: example_defs tags_accepted_def)
  note T1 = update_file_metadata_tags_stable
      [where env = ?E and c = "example_ctx\<lparr>telescope_uuid := Some ''t1'',
          custom_tags := Some [''ctx:tag'']\<rparr>" and rp = "''/data''" and t = ?t
        and i = "Some False" and s = ?V and s' = ?V' and d = example_record]
  note T2 = update_file_metadata_tags_stable
      [where env = ?E and c = "example_ctx\<lparr>custom_tags := Some [''ctx:tag'']\<rparr>"
        and rp = "''/data''" and t = None and i = None and s = ?V and s' = ?V'
        and d = example_record]
  have a: "build_tags ?E
     (example_ctx\<lparr>telescope_uuid := Some ''t1'', custom_tags := Some [''ctx:tag'']\<rparr>)
     ''/data'' ?t =
     [''arcsecond|root|/data'', ''arcsecond|origin|host'', ''arcsecond|uploader|alice'',
      ''arcsecond|version|1.0'', ''arcsecond|telescope|t1'', ''project:x'']"
    using T1 by (simp add: example_defs)
  have b: "build_tags ?E (example_ctx\<lparr>custom_tags := Some [''ctx:tag'']\<rparr>) ''/data'' None =
     [''arcsecond|root|/data'', ''arcsecond|origin|host'', ''arcsecond|uploader|alice'',
      ''arcsecond|version|1.0'', ''ctx:tag'']"
    using T2 by (simp add: example_defs)
  have l: "last (calls (effects (snd (update_file_metadata ?E (Some False) ?t ?V')))) =
     last (calls (effects (snd (update_file_metadata ?E (Some False) ?t ?V))))"
    using T1 g by blast
  have c: "calls (effects (snd (update_file_metadata ?E (Some False) ?t ?V))) =
       [DatafilesUpdate (PyStr ''7'')
          [(''tags'', PyList [''arcsecond|root|/data'', ''arcsecond|origin|host'',
                              ''arcsecond|uploader|alice'', ''arcsecond|version|1.0'',
                              ''project:x'']),
           (''is_raw'', PyBool False), (''fsname'', PyStr ''host''),
           (''fspath'', PyStr ''/data'')]]"
    by (simp add: run_defs example_defs)
  show ?thesis
    using a b c l g by simp
qed

text \<open>
  Claim C9 says that the handle opened for the body is closed on every exit of the
  transport phase. In the source nothing closes it: after a run of \<^verbatim>\<open>_perform_upload\<close>
  that succeeds, one that is skipped as a duplicate and one that raises, the handle
  opened for the body is still open.
\<close>

theorem perform_upload_handle_left_open:
  "perform_upload (example_env accepting)
     (example_uploader (example_ctx\<lparr>dataset_uuid := Some ''d1''\<rparr>)) =
     (None,
      (example_uploader (example_ctx\<lparr>dataset_uuid := Some ''d1''\<rparr>))
        \<lparr>status := (Status_UPLOADING, Substatus_UPLOADING, None),
          datafile := Some example_record,
          effects :=
            [Log ''[a.fits] Start uploading...'',
             Log ''[a.fits] Starting upload to Arcsecond (1024 bytes)'',
             Call (DatafilesCreate
               \<lparr>ud_dataset = Some ''d1'', ud_file_name = ''a.fits'', ud_handle = 0\<rparr>),
             Log ''[a.fits] Upload duration is 0.5 seconds.''],
          handles := [Opened]\<rparr>)
   \<and> handles (snd (perform_upload (example_env (failing [0] duplicate_error))
        (example_uploader (example_ctx\<lparr>dataset_uuid := Some ''d1''\<rparr>)))) = [Opened]
   \<and> handles (snd (perform_upload (example_env (failing [0] server_error))
        (example_uploader (example_ctx\<lparr>dataset_uuid := Some ''d1''\<rparr>)))) = [Opened]"
  by (simp add: run_defs example_defs)

text \<open>
  Claim C9, amended: every run of \<^verbatim>\<open>_perform_upload\<close> opens one new handle for the body
  it sends and closes none, whichever way it ends; a retry after a failure opens a second
  handle for its own body. The source has no \<^verbatim>\<open>close\<close>: when a handle is released is
  left to the Python runtime, outside this model.
\<close>

theorem perform_upload_opens_fresh_handle:
  "handles (snd (perform_upload env s)) = handles s @ [Opened]
   \<and> calls (effects (snd (perform_upload env s))) =
       calls (effects s) @
         [DatafilesCreate \<lparr>ud_dataset = dataset_uuid (ctx s), ud_file_name = file_name s,
                           ud_handle = length (handles s)\<rparr>]
   \<and> (perform_upload env s = (Some e, s1) \<longrightarrow>
        handles (snd (perform_upload env (sleep 1 s1))) = handles s @ [Opened, Opened] \<and>
        calls (effects (snd (perform_upload env (sleep 1 s1)))) =
          calls (effects s1) @
            [DatafilesCreate \<lparr>ud_dataset = dataset_uuid (ctx s), ud_file_name = file_name s,
                              ud_handle = Suc (length (handles s))\<rparr>])"
proof -
  have a: "\<And>s. handles (snd (perform_upload env s)) = handles s @ [Opened]"
    by (simp add: perform_upload_def get_upload_data_def step_defs split: option.splits)
  have b: "\<And>s. calls (effects (snd (perform_upload env s))) =
       calls (effects s) @
         [DatafilesCreate \<lparr>ud_dataset = dataset_uuid (ctx s), ud_file_name = file_name s,
                           ud_handle = length (handles s)\<rparr>]"
    by (simp add: perform_upload_def get_upload_data_def step_defs split: option.splits)
  have n: "\<And>s. file_name (snd (perform_upload env s)) = file_name s"
    by (simp add: perform_upload_def get_upload_data_def step_defs split: option.splits)
  show ?thesis
  proof (intro conjI impI)
    assume h: "perform_upload env s = (Some e, s1)"
    then have s1: "handles s1 = handles s @ [Opened]" "ctx s1 = ctx s" "file_name s1 = file_name s"
      using a [of s] perform_upload_ctx [of env s] n [of s] by simp_all
    then show "handles (snd (perform_upload env (sleep 1 s1))) = handles s @ [Opened, Opened]"
      using a [of "sleep 1 s1"] by (simp add: sleep_def)
    from s1 show "calls (effects (snd (perform_upload env (sleep 1 s1)))) =
          calls (effects s1) @
            [DatafilesCreate \<lparr>ud_dataset = dataset_uuid (ctx s), ud_file_name = file_name s,
                              ud_handle = Suc (length (handles s))\<rparr>]"
      using b [of "sleep 1 s1"] by (simp add: sleep_def)
  qed (simp_all add: a b)
qed

text \<open>
  A run for C9: the request fails, and the retry opens a second handle for its body.
\<close>

theorem perform_upload_opens_fresh_handle_witness:
  "perform_upload (example_env (failing [0] server_error))
     (example_uploader (example_ctx\<lparr>dataset_uuid := Some ''d1''\<rparr>)) =
     (Some (UploadRemoteFileError ''500 - Server Error''),
      snd (perform_upload (example_env (failing [0] server_error))
        (example_uploader (example_ctx\<lparr>dataset_uuid := Some ''d1''\<rparr>))))
   \<and> handles (snd (perform_upload (example_env (failing [0] server_error))
        (sleep 1 (snd (perform_upload (example_env (failing [0] server_error))
           (example_uploader (example_ctx\<lparr>dataset_uuid := Some ''d1''\<rparr>))))))) =
       [Opened, Opened]
   \<and> calls (effects (snd (perform_upload (example_env (failing [0] server_error))
        (sleep 1 (snd (perform_upload (example_env (failing [0] server_error))
           (example_uploader (example_ctx\<lparr>dataset_uuid := Some ''d1''\<rparr>)))))))) =
       [DatafilesCreate \<lparr>ud_dataset = Some ''d1'', ud_file_name = ''a.fits'', ud_handle = 0\<rparr>,
        DatafilesCreate \<lparr>ud_dataset = Some ''d1'', ud_file_name = ''a.fits'', ud_handle = 1\<rparr>]"
proof -
  have h: "perform_upload (example_env (failing [0] server_error))
     (example_uploader (example_ctx\<lparr>dataset_uuid := Some ''d1''\<rparr>)) =
     (Some (UploadRemoteFileError ''500 - Server Error''),
      snd (perform_upload (example_env (failing [0] server_error))
        (example_uploader (example_ctx\<lparr>dataset_uuid := Some ''d1''\<rparr>))))"
    by (simp add: run_defs example_defs)
  show ?thesis
    using h perform_upload_opens_fresh_handle
      [where env = "example_env (failing [0] server_error)"
         and s = "example_uploader (example_ctx\<lparr>dataset_uuid := Some ''d1''\<rparr>)"
         and e = "UploadRemoteFileError ''500 - Server Error''"
         and ?s1.0 = "snd (perform_upload (example_env (failing [0] server_error))
        (example_uploader (example_ctx\<lparr>dataset_uuid := Some ''d1''\<rparr>)))"]
    by (simp add: example_defs)
qed

text \<open>
  Claim C10: once the create request of the dataset phase has succeeded, the context
  that \<^verbatim>\<open>upload_file\<close> leaves is the one \<^verbatim>\<open>update_dataset\<close> produced, whatever the later
  phases do and whether \<^verbatim>\<open>upload_file\<close> returns or raises.
\<close>

theorem upload_file_keeps_dataset_write_back:
  assumes "is_validated (ctx s)"
      and "\<not> truthy (dataset_uuid (ctx s))"
      and "truthy (dataset_name (ctx s))"
      and "server env (length (calls (effects s))) (DatasetsCreate (create_payload (ctx s))) = (data, None)"
  shows "ctx (snd (upload_file env i t s)) = update_dataset env (ctx s) data"
proof -
  let ?s0 = "info s '' Opening upload sequence.''"
  obtain s1 where p: "prepare_dataset env ?s0 = (None, s1)"
    and c: "ctx s1 = update_dataset env (ctx s) data"
    using assms by (simp add: prepare_dataset_def step_defs)
  from p have "try_prepare_dataset env ?s0 = (None, s1)"
    by (simp add: try_prepare_dataset_def)
  with assms(1) have "upload_file env i t s =
      (case try_perform_upload env s1 of
         (None, s2) \<Rightarrow> finish_upload env i t s2
       | (Some e, s2) \<Rightarrow> (Inl e, s2))"
    by (simp add: upload_file_def Let_def)
  then show ?thesis
    using c by (simp add: after_dataset_ctx)
qed

text \<open>
  A run for C10: the dataset is created, the upload fails twice, \<^verbatim>\<open>upload_file\<close> raises,
  and the context still holds the UUID of the created dataset.
\<close>

theorem upload_file_keeps_dataset_write_back_witness:
  "is_validated (ctx (example_uploader example_ctx))
   \<and> \<not> truthy (dataset_uuid (ctx (example_uploader example_ctx)))
   \<and> truthy (dataset_name (ctx (example_uploader example_ctx)))
   \<and> server (example_env (failing [1, 2] server_error))
        (length (calls (effects (example_uploader example_ctx))))
        (DatasetsCreate (create_payload (ctx (example_uploader example_ctx)))) =
       (Some example_record, None)
   \<and> fst (upload_file (example_env (failing [1, 2] server_error)) None None
        (example_uploader example_ctx)) =
       Inl (UploadRemoteFileError ''500 - Server Error'')
   \<and> ctx (snd (upload_file (example_env (failing [1, 2] server_error)) None None
        (example_uploader example_ctx))) =
       example_ctx\<lparr>dataset_uuid := Some ''d1''\<rparr>"
proof -
  have h1: "is_validated (ctx (example_uploader example_ctx))"
    and h2: "\<not> truthy (dataset_uuid (ctx (example_uploader example_ctx)))"
    and h3: "truthy (dataset_name (ctx (example_uploader example_ctx)))"
    and h4: "server (example_env (failing [1, 2] server_error))
        (length (calls (effects (example_uploader example_ctx))))
        (DatasetsCreate (create_payload (ctx (example_uploader example_ctx)))) =
       (Some example_record, None)"
    by (simp_all add: example_defs truthy_def)
  have r: "fst (upload_file (example_env (failing [1, 2] server_error)) None None
        (example_uploader example_ctx)) =
       Inl (UploadRemoteFileError ''500 - Server Error'')"
    by (simp add: run_defs example_defs)
  show ?thesis
    using h1 h2 h3 h4 r
      upload_file_keeps_dataset_write_back [OF h1 h2 h3 h4, where i = None and t = None]
    by (simp add: example_defs dict_get_def)
qed

end
